theory Spec2Isabelle
  imports Main
begin

section \<open>Python values\<close>

text \<open>
  The value that \<^verbatim>\<open>await r.json()\<close> hands to the client: Python's \<^verbatim>\<open>None\<close>, a bool, an
  int, a str, a list or a dict with string keys. A dict is an association list in insertion
  order; a key is looked up from the front. JSON numbers with a fraction are left out of the
  model, and strings are taken to be ASCII.
\<close>

datatype json =
    JNull
  | JBool bool
  | JInt int
  | JStr string
  | JList "json list"
  | JObj "(string \<times> json) list"

text \<open>
  The exceptions the client meets. \<open>ClientResponseError\<close> is the \<^verbatim>\<open>ClientError\<close> that
  \<^verbatim>\<open>raise_for_status\<close> raises and carries the status; \<open>ClientError\<close> stands for every other
  \<^verbatim>\<open>aiohttp.ClientError\<close>. The two exceptions raised with \<^verbatim>\<open>from e\<close> keep \<open>e\<close> as their cause.
  Message texts are not modelled.
\<close>

datatype exn =
    TimeoutError
  | ClientError
  | ClientResponseError int
  | JSONDecodeError
  | KeyError string
  | TypeError
  | AttributeError
  | ValueError
  | CookidooAuthException
  | CookidooConfigException
  | CookidooParseException exn
  | CookidooRequestException exn

fun is_ClientError :: "exn \<Rightarrow> bool" where
  "is_ClientError ClientError = True"
| "is_ClientError (ClientResponseError _) = True"
| "is_ClientError _ = False"

fun is_KeyError :: "exn \<Rightarrow> bool" where
  "is_KeyError (KeyError _) = True"
| "is_KeyError _ = False"

text \<open>Sequencing of steps that may raise.\<close>

definition and_then :: "exn + 'a \<Rightarrow> ('a \<Rightarrow> exn + 'b) \<Rightarrow> exn + 'b" where
  "and_then x f = (case x of Inl e \<Rightarrow> Inl e | Inr v \<Rightarrow> f v)"

text \<open>A list comprehension whose element expression may raise: the first failure ends it.\<close>

fun comprehension :: "('a \<Rightarrow> exn + 'b) \<Rightarrow> 'a list \<Rightarrow> exn + 'b list" where
  "comprehension f [] = Inr []"
| "comprehension f (x # xs) =
     (case f x of
        Inl e \<Rightarrow> Inl e
      | Inr y \<Rightarrow> (case comprehension f xs of Inl e \<Rightarrow> Inl e | Inr ys \<Rightarrow> Inr (y # ys)))"

subsection \<open>Built-ins\<close>

text \<open>\<^verbatim>\<open>v[key]\<close> with a string key: only a dict can answer; a missing key is a \<^verbatim>\<open>KeyError\<close>.\<close>

fun py_getitem :: "json \<Rightarrow> string \<Rightarrow> exn + json" where
  "py_getitem (JObj kvs) k = (case map_of kvs k of None \<Rightarrow> Inl (KeyError k) | Some v \<Rightarrow> Inr v)"
| "py_getitem _ k = Inl TypeError"

text \<open>\<^verbatim>\<open>d[key]\<close> on a value known to be a dict.\<close>

definition dict_getitem :: "(string \<times> json) list \<Rightarrow> string \<Rightarrow> exn + json" where
  "dict_getitem d k = (case map_of d k of None \<Rightarrow> Inl (KeyError k) | Some v \<Rightarrow> Inr v)"

text \<open>\<^verbatim>\<open>v.items()\<close>: only a dict has the method.\<close>

fun py_items :: "json \<Rightarrow> exn + (string \<times> json) list" where
  "py_items (JObj kvs) = Inr kvs"
| "py_items _ = Inl AttributeError"

text \<open>\<^verbatim>\<open>for x in v\<close>: a list gives its elements, a dict its keys, a str its characters.\<close>

fun py_iter :: "json \<Rightarrow> exn + json list" where
  "py_iter (JList xs) = Inr xs"
| "py_iter (JObj kvs) = Inr (map (\<lambda>kv. JStr (fst kv)) kvs)"
| "py_iter (JStr s) = Inr (map (\<lambda>c. JStr [c]) s)"
| "py_iter _ = Inl TypeError"

text \<open>Truth value of a Python value.\<close>

fun py_bool :: "json \<Rightarrow> bool" where
  "py_bool JNull = False"
| "py_bool (JBool b) = b"
| "py_bool (JInt n) = (n \<noteq> 0)"
| "py_bool (JStr s) = (s \<noteq> [])"
| "py_bool (JList xs) = (xs \<noteq> [])"
| "py_bool (JObj kvs) = (kvs \<noteq> [])"

subsection \<open>Strings\<close>

definition ascii_lower :: "char \<Rightarrow> char" where
  "ascii_lower c =
     (if 65 \<le> (of_char c :: nat) \<and> (of_char c :: nat) \<le> 90
      then char_of ((of_char c :: nat) + 32) else c)"

definition ascii_upper :: "char \<Rightarrow> char" where
  "ascii_upper c =
     (if 97 \<le> (of_char c :: nat) \<and> (of_char c :: nat) \<le> 122
      then char_of ((of_char c :: nat) - 32) else c)"

text \<open>\<^verbatim>\<open>str.lower()\<close> and \<^verbatim>\<open>str.capitalize()\<close>.\<close>

definition lower :: "string \<Rightarrow> string" where
  "lower s = map ascii_lower s"

fun capitalize :: "string \<Rightarrow> string" where
  "capitalize [] = []"
| "capitalize (c # cs) = ascii_upper c # map ascii_lower cs"

text \<open>Decimal digits of a natural number, and \<^verbatim>\<open>str(n)\<close> of an int.\<close>

fun nat_digits :: "nat \<Rightarrow> string" where
  "nat_digits n =
     (if n < 10 then [char_of (48 + n)]
      else nat_digits (n div 10) @ [char_of (48 + n mod 10)])"

definition int_str :: "int \<Rightarrow> string" where
  "int_str i = (if i < 0 then CHR ''-'' # nat_digits (nat (- i)) else nat_digits (nat i))"

definition hex_digit :: "nat \<Rightarrow> char" where
  "hex_digit d = (if d < 10 then char_of (48 + d) else char_of (87 + d))"

text \<open>
  \<^verbatim>\<open>repr\<close> of a str: single quotes unless the text holds a single and no double quote;
  the quote in use and the backslash are escaped, control characters are written as escapes.
\<close>

definition repr_quote :: "string \<Rightarrow> char" where
  "repr_quote s =
     (if CHR 0x27 \<in> set s \<and> CHR 0x22 \<notin> set s then CHR 0x22 else CHR 0x27)"

definition repr_char :: "char \<Rightarrow> char \<Rightarrow> string" where
  "repr_char q c =
     (if c = q \<or> c = CHR 0x5C then [CHR 0x5C, c]
      else if c = CHR 0x09 then [CHR 0x5C, CHR ''t'']
      else if c = CHR 0x0A then [CHR 0x5C, CHR ''n'']
      else if c = CHR 0x0D then [CHR 0x5C, CHR ''r'']
      else if (of_char c :: nat) < 32 \<or> (of_char c :: nat) = 127
        then [CHR 0x5C, CHR ''x'', hex_digit ((of_char c :: nat) div 16),
              hex_digit ((of_char c :: nat) mod 16)]
      else [c])"

definition str_repr :: "string \<Rightarrow> string" where
  "str_repr s = (let q = repr_quote s in q # concat (map (repr_char q) s) @ [q])"

fun join :: "string \<Rightarrow> string list \<Rightarrow> string" where
  "join sep [] = []"
| "join sep [x] = x"
| "join sep (x # y # ys) = x @ sep @ join sep (y # ys)"

text \<open>\<^verbatim>\<open>repr(v)\<close>, and \<^verbatim>\<open>str(v)\<close>, which differs from it on a str only.\<close>

fun py_repr :: "json \<Rightarrow> string"
  and py_repr_list :: "json list \<Rightarrow> string list"
  and py_repr_items :: "(string \<times> json) list \<Rightarrow> string list" where
  "py_repr JNull = ''None''"
| "py_repr (JBool b) = (if b then ''True'' else ''False'')"
| "py_repr (JInt n) = int_str n"
| "py_repr (JStr s) = str_repr s"
| "py_repr (JList xs) = ''['' @ join '', '' (py_repr_list xs) @ '']''"
| "py_repr (JObj kvs) = ''{'' @ join '', '' (py_repr_items kvs) @ ''}''"
| "py_repr_list [] = []"
| "py_repr_list (x # xs) = py_repr x # py_repr_list xs"
| "py_repr_items [] = []"
| "py_repr_items (kv # kvs) = (str_repr (fst kv) @ '': '' @ py_repr (snd kv)) # py_repr_items kvs"

fun py_str :: "json \<Rightarrow> string" where
  "py_str (JStr s) = s"
| "py_str v = py_repr v"

subsection \<open>\<^verbatim>\<open>int(v)\<close>\<close>

definition is_space :: "char \<Rightarrow> bool" where
  "is_space c = ((of_char c :: nat) \<in> {9, 10, 11, 12, 13, 32})"

definition strip :: "string \<Rightarrow> string" where
  "strip s = rev (dropWhile is_space (rev (dropWhile is_space s)))"

definition digit_val :: "char \<Rightarrow> nat option" where
  "digit_val c =
     (if 48 \<le> (of_char c :: nat) \<and> (of_char c :: nat) \<le> 57
      then Some ((of_char c :: nat) - 48) else None)"

text \<open>
  Digits with single underscores between them; the flag says that the previous character
  was a digit.
\<close>

fun parse_digits :: "string \<Rightarrow> nat \<Rightarrow> bool \<Rightarrow> nat option" where
  "parse_digits [] acc prev = (if prev then Some acc else None)"
| "parse_digits (c # cs) acc prev =
     (if c = CHR ''_'' then (if prev then parse_digits cs acc False else None)
      else (case digit_val c of
              None \<Rightarrow> None
            | Some d \<Rightarrow> parse_digits cs (10 * acc + d) True))"

text \<open>The interpreter refuses a literal of more than 4300 digits.\<close>

definition parse_nat :: "string \<Rightarrow> nat option" where
  "parse_nat s =
     (if length (filter (\<lambda>c. c \<noteq> CHR ''_'') s) > 4300 then None else parse_digits s 0 False)"

definition str_to_int :: "string \<Rightarrow> exn + int" where
  "str_to_int s =
     (case strip s of
        [] \<Rightarrow> Inl ValueError
      | c # cs \<Rightarrow>
          (if c = CHR ''-'' then (case parse_nat cs of None \<Rightarrow> Inl ValueError | Some n \<Rightarrow> Inr (- int n))
           else if c = CHR ''+'' then (case parse_nat cs of None \<Rightarrow> Inl ValueError | Some n \<Rightarrow> Inr (int n))
           else (case parse_nat (c # cs) of None \<Rightarrow> Inl ValueError | Some n \<Rightarrow> Inr (int n))))"

fun py_int :: "json \<Rightarrow> exn + int" where
  "py_int (JInt n) = Inr n"
| "py_int (JBool b) = Inr (if b then 1 else 0)"
| "py_int (JStr s) = str_to_int s"
| "py_int _ = Inl TypeError"

section \<open>The client and what it talks to\<close>

text \<open>
  \<^verbatim>\<open>CookidooConfig\<close> as the client reads it: \<^verbatim>\<open>email\<close>, \<^verbatim>\<open>password\<close> and the
  \<^verbatim>\<open>localization\<close> dict.
\<close>

record cookidoo_config =
  email :: string
  password :: string
  localization :: "(string \<times> string) list"

text \<open>
  The path templates and the two endpoints are constants of \<^verbatim>\<open>const.py\<close>; a URL is kept
  as the template it was built from, with the values filled in. The localization is taken
  to hold every key the templates name, so that building a URL does not raise.
\<close>

datatype path =
    COMMUNITY_PROFILE_PATH
  | SUBSCRIPTIONS_PATH
  | RECIPE_PATH string
  | SHOPPING_LIST_RECIPES_PATH
  | INGREDIENT_ITEMS_PATH
  | ADD_INGREDIENT_ITEMS_FOR_RECIPES_PATH
  | REMOVE_INGREDIENT_ITEMS_FOR_RECIPES_PATH
  | EDIT_OWNERSHIP_INGREDIENT_ITEMS_PATH
  | ADDITIONAL_ITEMS_PATH
  | ADD_ADDITIONAL_ITEMS_PATH
  | EDIT_ADDITIONAL_ITEMS_PATH
  | EDIT_OWNERSHIP_ADDITIONAL_ITEMS_PATH
  | REMOVE_ADDITIONAL_ITEMS_PATH

datatype url = TOKEN_ENDPOINT | API_ENDPOINT "(string \<times> string) list" path

datatype http_method = GET | POST | DELETE

datatype payload = NoPayload | FormData "(string \<times> json) list" | JsonData json

record request =
  req_method :: http_method
  req_url :: url
  req_headers :: "string \<rightharpoonup> string"
  req_payload :: payload

text \<open>
  The response \<open>r\<close> of one call, its body received: \<^verbatim>\<open>r.status\<close>, \<^verbatim>\<open>await r.text()\<close> and what
  \<^verbatim>\<open>await r.json()\<close> does, which is to return a value or raise. A call that fails before the
  body is there (connection error, timeout) is the \<open>Inl\<close> case of the transport's outcome
  \<open>exn + response\<close>.
\<close>

record response =
  status :: int
  body_text :: string
  body_json :: "exn + json"

text \<open>
  What is handed to \<^verbatim>\<open>_LOGGER.debug\<close>, by its arguments: the response line (URL, status,
  text), a traceback of the exception being handled, the server's error description, or a
  response text.
\<close>

datatype log_record =
    LogResponse url int string
  | LogTraceback exn
  | LogDescription json
  | LogText string

text \<open>
  The instance: its attributes, the calls it has issued through \<^verbatim>\<open>self._session\<close> and the
  records it has logged, both oldest first. \<open>expires_in_field\<close> is \<^verbatim>\<open>self.__expires_in\<close>, which
  \<^verbatim>\<open>__init__\<close> declares and does not assign: \<open>None\<close> is the attribute not being there.
  \<open>auth_data_field\<close> is \<^verbatim>\<open>self._auth_data\<close>, \<open>None\<close> for Python's \<^verbatim>\<open>None\<close>.
\<close>

record cookidoo =
  cfg :: cookidoo_config
  token_headers :: "string \<rightharpoonup> string"
  api_headers :: "string \<rightharpoonup> string"
  expires_in_field :: "int option"
  auth_data_field :: "(string \<times> json) list option"
  sent :: "request list"
  logged :: "log_record list"

text \<open>\<^verbatim>\<open>__init__\<close>; the two default header dicts are constants of \<^verbatim>\<open>const.py\<close>.\<close>

definition init :: "cookidoo_config \<Rightarrow> (string \<rightharpoonup> string) \<Rightarrow> (string \<rightharpoonup> string) \<Rightarrow> cookidoo" where
  "init config DEFAULT_TOKEN_HEADERS DEFAULT_API_HEADERS =
     \<lparr>cfg = config, token_headers = DEFAULT_TOKEN_HEADERS, api_headers = DEFAULT_API_HEADERS,
      expires_in_field = None, auth_data_field = None, sent = [], logged = []\<rparr>"

definition debug :: "log_record \<Rightarrow> cookidoo \<Rightarrow> cookidoo" where
  "debug record self = self\<lparr>logged := logged self @ [record]\<rparr>"

definition session_request :: "request \<Rightarrow> cookidoo \<Rightarrow> cookidoo" where
  "session_request req self = self\<lparr>sent := sent self @ [req]\<rparr>"

definition api_endpoint :: "cookidoo \<Rightarrow> path \<Rightarrow> url" where
  "api_endpoint self p = API_ENDPOINT (localization (cfg self)) p"

subsection \<open>Properties of the instance\<close>

text \<open>
  \<^verbatim>\<open>expires_in\<close>, read at clock value \<open>now\<close> (\<^verbatim>\<open>int(time.time())\<close>):
  \<^verbatim>\<open>max(0, self.__expires_in - int(time.time()))\<close>.
\<close>

definition expires_in :: "int \<Rightarrow> cookidoo \<Rightarrow> exn + int" where
  "expires_in now self =
     (case expires_in_field self of
        None \<Rightarrow> Inl AttributeError
      | Some e \<Rightarrow> Inr (max 0 (e - now)))"

text \<open>The setter: \<^verbatim>\<open>self.__expires_in = int(time.time()) + int(expires_in)\<close>.\<close>

definition expires_in_setter :: "json \<Rightarrow> int \<Rightarrow> cookidoo \<Rightarrow> (exn + unit) \<times> cookidoo" where
  "expires_in_setter v now self =
     (case py_int v of
        Inl e \<Rightarrow> (Inl e, self)
      | Inr n \<Rightarrow> (Inr (), self\<lparr>expires_in_field := Some (now + n)\<rparr>))"

text \<open>\<^verbatim>\<open>auth_data\<close>: a copy of the held dict, or \<^verbatim>\<open>None\<close>; an empty dict reads as \<^verbatim>\<open>None\<close> too.\<close>

definition auth_data :: "cookidoo \<Rightarrow> (string \<times> json) list option" where
  "auth_data self =
     (case auth_data_field self of
        None \<Rightarrow> None
      | Some d \<Rightarrow> (if d \<noteq> [] then Some d else None))"

text \<open>
  Modelled from the spec: the template \<^verbatim>\<open>AUTHORIZATION_HEADER\<close> of \<^verbatim>\<open>const.py\<close>, which is not
  among the sources. The spec gives the header value as the token type, a space and the
  access token; \<^verbatim>\<open>format\<close> writes each argument with \<^verbatim>\<open>str\<close>.
\<close>

definition AUTHORIZATION_HEADER_format :: "string \<Rightarrow> json \<Rightarrow> string" where
  "AUTHORIZATION_HEADER_format ty access_token = ty @ '' '' @ py_str access_token"

text \<open>
  The setter of \<^verbatim>\<open>auth_data\<close>, statement by statement: the header is written first, then
  the dict is stored, then the expiry is set. \<^verbatim>\<open>.lower()\<close> exists on a str only.
\<close>

definition auth_data_setter :: "(string \<times> json) list \<Rightarrow> int \<Rightarrow> cookidoo \<Rightarrow> (exn + unit) \<times> cookidoo" where
  "auth_data_setter data now self =
     (case dict_getitem data ''token_type'' of
        Inl e \<Rightarrow> (Inl e, self)
      | Inr tt \<Rightarrow>
          (case tt of
             JStr s \<Rightarrow>
               (case dict_getitem data ''access_token'' of
                  Inl e \<Rightarrow> (Inl e, self)
                | Inr tok \<Rightarrow>
                    (let self1 = self\<lparr>api_headers := (api_headers self)
                                   (''AUTHORIZATION'' \<mapsto>
                                      AUTHORIZATION_HEADER_format (capitalize (lower s)) tok)\<rparr>;
                         self2 = self1\<lparr>auth_data_field := Some data\<rparr>
                     in (case dict_getitem data ''expires_in'' of
                           Inl e \<Rightarrow> (Inl e, self2)
                         | Inr v \<Rightarrow> expires_in_setter v now self2)))
           | _ \<Rightarrow> (Inl AttributeError, self)))"

section \<open>The shared parts of every call\<close>

text \<open>
  The block under \<^verbatim>\<open>if r.status == HTTPStatus.UNAUTHORIZED\<close>, the same in every method:
  \<^verbatim>\<open>r.json()\<close> is tried, \<^verbatim>\<open>JSONDecodeError\<close> and \<^verbatim>\<open>ClientError\<close> are caught and logged; the
  \<^verbatim>\<open>else\<close> branch logs \<^verbatim>\<open>errmsg["error_description"]\<close> and is not covered by the handler; then
  \<^verbatim>\<open>CookidooAuthException\<close> is raised.
\<close>

definition unauthorized :: "response \<Rightarrow> cookidoo \<Rightarrow> (exn + 'a) \<times> cookidoo" where
  "unauthorized r self =
     (case body_json r of
        Inl e \<Rightarrow>
          (if e = JSONDecodeError \<or> is_ClientError e
           then (Inl CookidooAuthException, debug (LogTraceback e) self)
           else (Inl e, self))
      | Inr errmsg \<Rightarrow>
          (case py_getitem errmsg ''error_description'' of
             Inl e \<Rightarrow> (Inl e, self)
           | Inr d \<Rightarrow> (Inl CookidooAuthException, debug (LogDescription d) self)))"

text \<open>\<^verbatim>\<open>r.raise_for_status()\<close> of aiohttp: it raises for a status of 400 and above.\<close>

definition raise_for_status :: "response \<Rightarrow> exn + unit" where
  "raise_for_status r = (if 400 \<le> status r then Inl (ClientResponseError (status r)) else Inr ())"

text \<open>
  The two handlers that close every method: \<^verbatim>\<open>except TimeoutError\<close> and
  \<^verbatim>\<open>except ClientError\<close>, each logging and raising \<^verbatim>\<open>CookidooRequestException ... from e\<close>.
\<close>

definition except_request :: "(exn + 'a) \<times> cookidoo \<Rightarrow> (exn + 'a) \<times> cookidoo" where
  "except_request res =
     (case res of
        (Inl e, self) \<Rightarrow>
          (if e = TimeoutError then (Inl (CookidooRequestException e), debug (LogTraceback e) self)
           else if is_ClientError e then (Inl (CookidooRequestException e), debug (LogTraceback e) self)
           else (Inl e, self))
      | (Inr v, self) \<Rightarrow> (Inr v, self))"

text \<open>
  The inner \<^verbatim>\<open>try\<close> of the reading methods: \<open>f\<close> is the expression evaluated on
  \<^verbatim>\<open>await r.json()\<close>; \<^verbatim>\<open>except (JSONDecodeError, KeyError) as e\<close> logs and raises
  \<^verbatim>\<open>CookidooParseException ... from e\<close>.
\<close>

definition parse_response :: "(json \<Rightarrow> exn + json) \<Rightarrow> response \<Rightarrow> cookidoo \<Rightarrow> (exn + json) \<times> cookidoo" where
  "parse_response f r self =
     (case and_then (body_json r) f of
        Inl e \<Rightarrow>
          (if e = JSONDecodeError \<or> is_KeyError e
           then (Inl (CookidooParseException e), debug (LogTraceback e) self)
           else (Inl e, self))
      | Inr v \<Rightarrow> (Inr v, self))"

text \<open>The methods that read no body return \<^verbatim>\<open>None\<close> once \<^verbatim>\<open>raise_for_status\<close> has passed.\<close>

definition no_response :: "response \<Rightarrow> cookidoo \<Rightarrow> (exn + json) \<times> cookidoo" where
  "no_response r self = (Inr JNull, self)"

text \<open>
  The frame every method but the token request is written in: build the URL, issue the
  call with \<^verbatim>\<open>self._api_headers\<close> (and the JSON payload, if any), log the response line, take
  the 401 block, \<^verbatim>\<open>raise_for_status\<close>, then the method's own reading of the body; around it
  the two handlers. \<open>net\<close> is the transport's outcome for the call issued.
\<close>

definition api_request ::
  "http_method \<Rightarrow> path \<Rightarrow> payload \<Rightarrow> (response \<Rightarrow> cookidoo \<Rightarrow> (exn + json) \<times> cookidoo)
     \<Rightarrow> cookidoo \<Rightarrow> exn + response \<Rightarrow> (exn + json) \<times> cookidoo" where
  "api_request m p json_data on_success self net =
     (let url = api_endpoint self p;
          self1 = session_request
                    \<lparr>req_method = m, req_url = url, req_headers = api_headers self,
                     req_payload = json_data\<rparr> self
      in except_request
           (case net of
              Inl e \<Rightarrow> (Inl e, self1)
            | Inr r \<Rightarrow>
                (let self2 = debug (LogResponse url (status r) (body_text r)) self1
                 in if status r = 401 then unauthorized r self2
                    else (case raise_for_status r of
                            Inl e \<Rightarrow> (Inl e, self2)
                          | Inr u \<Rightarrow> on_success r self2))))"

section \<open>Token requests\<close>

text \<open>
  The dict comprehension \<^verbatim>\<open>{key: val for key, val in d.items() if key in T.__annotations__}\<close>:
  the entries whose key is a declared field of \<open>T\<close>, in their order.
\<close>

definition project :: "string list \<Rightarrow> (string \<times> json) list \<Rightarrow> (string \<times> json) list" where
  "project annotations kvs = filter (\<lambda>kv. fst kv \<in> set annotations) kvs"

text \<open>
  Modelled from the spec: the fields of \<^verbatim>\<open>CookidooAuthResponse\<close>, declared in \<^verbatim>\<open>types.py\<close>, which
  is not among the sources. The spec's data model lists them.
\<close>

definition CookidooAuthResponse_annotations :: "string list" where
  "CookidooAuthResponse_annotations = [''access_token'', ''refresh_token'', ''token_type'', ''expires_in'']"

text \<open>
  The body of \<^verbatim>\<open>async with self._session.post(...) as r\<close> in \<^verbatim>\<open>_request_access_token\<close>. The
  response line carries the text unless the status is 200.
\<close>

definition token_response :: "url \<Rightarrow> response \<Rightarrow> cookidoo \<Rightarrow> (exn + (string \<times> json) list) \<times> cookidoo" where
  "token_response url r self =
     (let self1 = debug (LogResponse url (status r) (if status r \<noteq> 200 then body_text r else [])) self
      in if status r = 401 then unauthorized r self1
         else if status r = 400 then (Inl CookidooAuthException, debug (LogText (body_text r)) self1)
         else (case raise_for_status r of
                 Inl e \<Rightarrow> (Inl e, self1)
               | Inr u \<Rightarrow>
                   (case and_then (and_then (body_json r) py_items)
                           (\<lambda>kvs. Inr (project CookidooAuthResponse_annotations kvs)) of
                      Inl e \<Rightarrow>
                        (if e = JSONDecodeError
                         then (Inl (CookidooParseException e), debug (LogTraceback e) self1)
                         else (Inl e, self1))
                    | Inr data \<Rightarrow> (Inr data, self1))))"

text \<open>
  \<^verbatim>\<open>_request_access_token\<close>: the call, the two handlers around it, and after them
  \<^verbatim>\<open>self.auth_data = data\<close> and \<^verbatim>\<open>return data.copy()\<close>. \<open>now\<close> is the clock value the setter
  reads.
\<close>

definition request_access_token ::
  "(string \<times> json) list \<Rightarrow> int \<Rightarrow> cookidoo \<Rightarrow> exn + response \<Rightarrow> (exn + json) \<times> cookidoo" where
  "request_access_token form_data now self net =
     (let url = TOKEN_ENDPOINT;
          self1 = session_request
                    \<lparr>req_method = POST, req_url = url, req_headers = token_headers self,
                     req_payload = FormData form_data\<rparr> self
      in (case except_request
                 (case net of Inl e \<Rightarrow> (Inl e, self1) | Inr r \<Rightarrow> token_response url r self1) of
            (Inl e, self2) \<Rightarrow> (Inl e, self2)
          | (Inr data, self2) \<Rightarrow>
              (case auth_data_setter data now self2 of
                 (Inl e, self3) \<Rightarrow> (Inl e, self3)
               | (Inr u, self3) \<Rightarrow> (Inr (JObj data), self3))))"

definition login :: "int \<Rightarrow> cookidoo \<Rightarrow> exn + response \<Rightarrow> (exn + json) \<times> cookidoo" where
  "login now self net =
     request_access_token
       [(''grant_type'', JStr ''password''),
        (''username'', JStr (email (cfg self))),
        (''password'', JStr (password (cfg self)))]
       now self net"

text \<open>
  \<^verbatim>\<open>refresh_token\<close>; \<^verbatim>\<open>not self._auth_data\<close> holds for \<^verbatim>\<open>None\<close> and for an empty dict.
  \<open>COOKIDOO_CLIENT_ID\<close> is a constant of \<^verbatim>\<open>const.py\<close>.
\<close>

definition refresh_token :: "string \<Rightarrow> int \<Rightarrow> cookidoo \<Rightarrow> exn + response \<Rightarrow> (exn + json) \<times> cookidoo" where
  "refresh_token COOKIDOO_CLIENT_ID now self net =
     (case auth_data_field self of
        None \<Rightarrow> (Inl CookidooConfigException, self)
      | Some d \<Rightarrow>
          (if d = [] then (Inl CookidooConfigException, self)
           else (case dict_getitem d ''refresh_token'' of
                   Inl e \<Rightarrow> (Inl e, self)
                 | Inr tok \<Rightarrow>
                     request_access_token
                       [(''grant_type'', JStr ''refresh_token''),
                        (''refresh_token'', tok),
                        (''client_id'', JStr COOKIDOO_CLIENT_ID)]
                       now self net)))"

section \<open>The methods of the API\<close>

text \<open>
  The expressions evaluated on the body. The field sets of \<^verbatim>\<open>CookidooUserInfo\<close> and
  \<^verbatim>\<open>CookidooSubscription\<close> (\<^verbatim>\<open>types.py\<close>) and the four converters of \<^verbatim>\<open>helpers.py\<close> are not
  among the sources; the methods take them as arguments. A converter may raise.
\<close>

definition read_user_info :: "string list \<Rightarrow> json \<Rightarrow> exn + json" where
  "read_user_info annotations j =
     and_then (and_then (py_getitem j ''userInfo'') py_items)
       (\<lambda>kvs. Inr (JObj (project annotations kvs)))"

text \<open>
  \<^verbatim>\<open>next((s for s in body if s["active"]), None)\<close>: the elements are tried in order and the
  search stops at the first whose \<^verbatim>\<open>active\<close> is true; later elements are not looked at.
\<close>

fun first_active :: "json list \<Rightarrow> exn + json option" where
  "first_active [] = Inr None"
| "first_active (s # ss) =
     (case py_getitem s ''active'' of
        Inl e \<Rightarrow> Inl e
      | Inr a \<Rightarrow> (if py_bool a then Inr (Some s) else first_active ss))"

definition read_active_subscription :: "string list \<Rightarrow> json \<Rightarrow> exn + json" where
  "read_active_subscription annotations j =
     and_then (and_then (py_iter j) first_active)
       (\<lambda>found. case found of
                   None \<Rightarrow> Inr JNull
                 | Some subscription \<Rightarrow>
                     (if py_bool subscription
                      then and_then (py_items subscription)
                             (\<lambda>kvs. Inr (JObj (project annotations kvs)))
                      else Inr JNull))"

text \<open>\<^verbatim>\<open>[f(x) for x in body[key]]\<close>.\<close>

definition read_list :: "string \<Rightarrow> (json \<Rightarrow> exn + json) \<Rightarrow> json \<Rightarrow> exn + json" where
  "read_list key f j =
     and_then (and_then (and_then (py_getitem j key) py_iter) (comprehension f))
       (\<lambda>ys. Inr (JList ys))"

text \<open>\<^verbatim>\<open>[f(i) for recipe in body[key] for i in recipe["recipeIngredientGroups"]]\<close>.\<close>

definition read_groups :: "string \<Rightarrow> (json \<Rightarrow> exn + json) \<Rightarrow> json \<Rightarrow> exn + json" where
  "read_groups key f j =
     and_then
       (and_then (and_then (py_getitem j key) py_iter)
          (comprehension
             (\<lambda>recipe. and_then (and_then (py_getitem recipe ''recipeIngredientGroups'') py_iter)
                          (comprehension f))))
       (\<lambda>yss. Inr (JList (concat yss)))"

definition get_user_info :: "string list \<Rightarrow> cookidoo \<Rightarrow> exn + response \<Rightarrow> (exn + json) \<times> cookidoo" where
  "get_user_info CookidooUserInfo_annotations self net =
     api_request GET COMMUNITY_PROFILE_PATH NoPayload
       (parse_response (read_user_info CookidooUserInfo_annotations)) self net"

definition get_active_subscription :: "string list \<Rightarrow> cookidoo \<Rightarrow> exn + response \<Rightarrow> (exn + json) \<times> cookidoo" where
  "get_active_subscription CookidooSubscription_annotations self net =
     api_request GET SUBSCRIPTIONS_PATH NoPayload
       (parse_response (read_active_subscription CookidooSubscription_annotations)) self net"

definition get_recipe_details ::
  "(json \<Rightarrow> exn + json) \<Rightarrow> string \<Rightarrow> cookidoo \<Rightarrow> exn + response \<Rightarrow> (exn + json) \<times> cookidoo" where
  "get_recipe_details cookidoo_recipe_details_from_json ident self net =
     api_request GET (RECIPE_PATH ident) NoPayload
       (parse_response cookidoo_recipe_details_from_json) self net"

definition get_shopping_list_recipes ::
  "(json \<Rightarrow> exn + json) \<Rightarrow> cookidoo \<Rightarrow> exn + response \<Rightarrow> (exn + json) \<times> cookidoo" where
  "get_shopping_list_recipes cookidoo_recipe_from_json self net =
     api_request GET SHOPPING_LIST_RECIPES_PATH NoPayload
       (parse_response (read_list ''recipes'' cookidoo_recipe_from_json)) self net"

definition get_ingredient_items ::
  "(json \<Rightarrow> exn + json) \<Rightarrow> cookidoo \<Rightarrow> exn + response \<Rightarrow> (exn + json) \<times> cookidoo" where
  "get_ingredient_items cookidoo_ingredient_item_from_json self net =
     api_request GET INGREDIENT_ITEMS_PATH NoPayload
       (parse_response (read_groups ''recipes'' cookidoo_ingredient_item_from_json)) self net"

definition add_ingredient_items_for_recipes ::
  "(json \<Rightarrow> exn + json) \<Rightarrow> string list \<Rightarrow> cookidoo \<Rightarrow> exn + response \<Rightarrow> (exn + json) \<times> cookidoo" where
  "add_ingredient_items_for_recipes cookidoo_ingredient_item_from_json recipe_ids self net =
     api_request POST ADD_INGREDIENT_ITEMS_FOR_RECIPES_PATH
       (JsonData (JObj [(''recipeIDs'', JList (map JStr recipe_ids))]))
       (parse_response (read_groups ''data'' cookidoo_ingredient_item_from_json)) self net"

definition remove_ingredient_items_for_recipes ::
  "string list \<Rightarrow> cookidoo \<Rightarrow> exn + response \<Rightarrow> (exn + json) \<times> cookidoo" where
  "remove_ingredient_items_for_recipes recipe_ids self net =
     api_request POST REMOVE_INGREDIENT_ITEMS_FOR_RECIPES_PATH
       (JsonData (JObj [(''recipeIDs'', JList (map JStr recipe_ids))]))
       no_response self net"

text \<open>
  The payloads of the editing methods are built before the \<^verbatim>\<open>try\<close>, from the items given:
  an item without the key read raises there, and no call is issued.
\<close>

definition ownership_entry :: "int \<Rightarrow> json \<Rightarrow> exn + json" where
  "ownership_entry now item =
     and_then (py_getitem item ''id'')
       (\<lambda>i. and_then (py_getitem item ''is_owned'')
               (\<lambda>own. Inr (JObj [(''id'', i), (''isOwned'', own), (''ownedTimestamp'', JInt now)])))"

definition name_entry :: "json \<Rightarrow> exn + json" where
  "name_entry item =
     and_then (py_getitem item ''id'')
       (\<lambda>i. and_then (py_getitem item ''name'')
               (\<lambda>n. Inr (JObj [(''id'', i), (''name'', n)])))"

definition edit_ingredient_items_ownership ::
  "(json \<Rightarrow> exn + json) \<Rightarrow> json list \<Rightarrow> int \<Rightarrow> cookidoo \<Rightarrow> exn + response \<Rightarrow> (exn + json) \<times> cookidoo" where
  "edit_ingredient_items_ownership cookidoo_ingredient_item_from_json ingredient_items now self net =
     (case comprehension (ownership_entry now) ingredient_items of
        Inl e \<Rightarrow> (Inl e, self)
      | Inr entries \<Rightarrow>
          api_request POST EDIT_OWNERSHIP_INGREDIENT_ITEMS_PATH
            (JsonData (JObj [(''ingredients'', JList entries)]))
            (parse_response (read_list ''data'' cookidoo_ingredient_item_from_json)) self net)"

definition get_additional_items ::
  "(json \<Rightarrow> exn + json) \<Rightarrow> cookidoo \<Rightarrow> exn + response \<Rightarrow> (exn + json) \<times> cookidoo" where
  "get_additional_items cookidoo_additional_item_from_json self net =
     api_request GET ADDITIONAL_ITEMS_PATH NoPayload
       (parse_response (read_list ''additionalItems'' cookidoo_additional_item_from_json)) self net"

definition add_additional_items ::
  "(json \<Rightarrow> exn + json) \<Rightarrow> string list \<Rightarrow> cookidoo \<Rightarrow> exn + response \<Rightarrow> (exn + json) \<times> cookidoo" where
  "add_additional_items cookidoo_additional_item_from_json additional_item_names self net =
     api_request POST ADD_ADDITIONAL_ITEMS_PATH
       (JsonData (JObj [(''itemsValue'', JList (map JStr additional_item_names))]))
       (parse_response (read_list ''data'' cookidoo_additional_item_from_json)) self net"

definition edit_additional_items ::
  "(json \<Rightarrow> exn + json) \<Rightarrow> json list \<Rightarrow> cookidoo \<Rightarrow> exn + response \<Rightarrow> (exn + json) \<times> cookidoo" where
  "edit_additional_items cookidoo_additional_item_from_json additional_items self net =
     (case comprehension name_entry additional_items of
        Inl e \<Rightarrow> (Inl e, self)
      | Inr entries \<Rightarrow>
          api_request POST EDIT_ADDITIONAL_ITEMS_PATH
            (JsonData (JObj [(''additionalItems'', JList entries)]))
            (parse_response (read_list ''data'' cookidoo_additional_item_from_json)) self net)"

definition edit_additional_items_ownership ::
  "(json \<Rightarrow> exn + json) \<Rightarrow> json list \<Rightarrow> int \<Rightarrow> cookidoo \<Rightarrow> exn + response \<Rightarrow> (exn + json) \<times> cookidoo" where
  "edit_additional_items_ownership cookidoo_additional_item_from_json additional_items now self net =
     (case comprehension (ownership_entry now) additional_items of
        Inl e \<Rightarrow> (Inl e, self)
      | Inr entries \<Rightarrow>
          api_request POST EDIT_OWNERSHIP_ADDITIONAL_ITEMS_PATH
            (JsonData (JObj [(''additionalItems'', JList entries)]))
            (parse_response (read_list ''data'' cookidoo_additional_item_from_json)) self net)"

definition remove_additional_items ::
  "string list \<Rightarrow> cookidoo \<Rightarrow> exn + response \<Rightarrow> (exn + json) \<times> cookidoo" where
  "remove_additional_items additional_item_ids self net =
     api_request POST REMOVE_ADDITIONAL_ITEMS_PATH
       (JsonData (JObj [(''additionalItemIDs'', JList (map JStr additional_item_ids))]))
       no_response self net"

definition clear_shopping_list :: "cookidoo \<Rightarrow> exn + response \<Rightarrow> (exn + json) \<times> cookidoo" where
  "clear_shopping_list self net =
     api_request DELETE INGREDIENT_ITEMS_PATH NoPayload no_response self net"

section \<open>Vocabulary of the properties\<close>

text \<open>The three failures a token request raises by its own \<^verbatim>\<open>raise\<close> statements.\<close>

fun is_grant_failure :: "exn \<Rightarrow> bool" where
  "is_grant_failure CookidooAuthException = True"
| "is_grant_failure (CookidooRequestException _) = True"
| "is_grant_failure (CookidooParseException _) = True"
| "is_grant_failure _ = False"

text \<open>
  A subscription as the data model has it, a dict whose \<^verbatim>\<open>active\<close> is a bool, and the
  subscriptions that are active.
\<close>

fun has_active_flag :: "json \<Rightarrow> bool" where
  "has_active_flag (JObj kvs) =
     (case map_of kvs ''active'' of Some (JBool b) \<Rightarrow> True | _ \<Rightarrow> False)"
| "has_active_flag _ = False"

definition is_active :: "json \<Rightarrow> bool" where
  "is_active s = (py_getitem s ''active'' = Inr (JBool True))"

text \<open>A response whose body decodes to the value \<open>j\<close>.\<close>

definition respond :: "int \<Rightarrow> string \<Rightarrow> json \<Rightarrow> response" where
  "respond st txt j = \<lparr>status = st, body_text = txt, body_json = Inr j\<rparr>"

text \<open>Inputs for the examples: a configuration, a fresh client, and the spec's token body.\<close>

definition sample_cfg :: cookidoo_config where
  "sample_cfg = \<lparr>email = ''cook@example.org'', password = ''secret'',
                  localization = [(''country_code'', ''ch''), (''language'', ''de-CH'')]\<rparr>"

definition sample_client :: cookidoo where
  "sample_client = init sample_cfg Map.empty Map.empty"

definition token_text :: string where
  \<open>token_text = ''{"access_token":"AT","refresh_token":"RT","token_type":"bearer","expires_in":3600}''\<close>

definition token_body :: json where
  "token_body = JObj [(''access_token'', JStr ''AT''), (''refresh_token'', JStr ''RT''),
                      (''token_type'', JStr ''bearer''), (''expires_in'', JInt 3600)]"

text \<open>The fresh client after a login answered with the spec's token body, at clock value 1000.\<close>

definition logged_in_client :: cookidoo where
  "logged_in_client = snd (login 1000 sample_client (Inr (respond 200 token_text token_body)))"

text \<open>Three subscriptions, the second and the third active.\<close>

definition sample_subscriptions :: "json list" where
  "sample_subscriptions =
     [JObj [(''active'', JBool False), (''type'', JStr ''REGULAR'')],
      JObj [(''active'', JBool True), (''type'', JStr ''TRIAL''), (''internal'', JInt 7)],
      JObj [(''active'', JBool True), (''type'', JStr ''REGULAR'')]]"

text \<open>A shopping list of two recipes with two ingredient groups each.\<close>

definition sample_ingredients :: json where
  "sample_ingredients =
     JObj [(''recipes'',
        JList [JObj [(''id'', JStr ''r1''),
                     (''recipeIngredientGroups'', JList [JStr ''a1'', JStr ''a2''])],
               JObj [(''id'', JStr ''r2''),
                     (''recipeIngredientGroups'', JList [JStr ''b1'', JStr ''b2''])]])]"

text \<open>
  An element the search for the active subscription passes over: its \<^verbatim>\<open>active\<close> can be read
  and is false as a truth value.
\<close>

definition inactive :: "json \<Rightarrow> bool" where
  "inactive s = (case py_getitem s ''active'' of Inl e \<Rightarrow> False | Inr a \<Rightarrow> \<not> py_bool a)"

section \<open>Facts about the shared parts\<close>

lemma except_request_Inr:
  "except_request res = (Inr v, s') \<longleftrightarrow> res = (Inr v, s')"
  by (auto simp: except_request_def split: prod.splits sum.splits if_splits)

lemma unauthorized_not_Inr: "unauthorized r s \<noteq> (Inr v, s')"
  by (auto simp: unauthorized_def split: sum.splits)

lemma py_int_Inl: "py_int v = Inl e \<Longrightarrow> e = ValueError \<or> e = TypeError"
  by (cases v) (auto simp: str_to_int_def split: list.splits if_splits option.splits)

lemma dict_getitem_Inl: "dict_getitem d k = Inl e \<Longrightarrow> e = KeyError k"
  by (auto simp: dict_getitem_def split: option.splits)

lemma expires_in_setter_Inr:
  "expires_in_setter v now s = (Inr u, s') \<longleftrightarrow>
     (\<exists>n. py_int v = Inr n \<and> s' = s\<lparr>expires_in_field := Some (now + n)\<rparr>)"
  by (auto simp: expires_in_setter_def split: sum.splits)

lemma expires_in_setter_Inl:
  "expires_in_setter v now s = (Inl e, s') \<Longrightarrow> (e = ValueError \<or> e = TypeError) \<and> s' = s"
  by (auto simp: expires_in_setter_def split: sum.splits dest: py_int_Inl)

text \<open>What a completed run of the setter has done.\<close>

lemma auth_data_setter_Inr:
  assumes "auth_data_setter data now s = (Inr u, s')"
  shows "\<exists>tt tok ev n.
           dict_getitem data ''token_type'' = Inr (JStr tt) \<and>
           dict_getitem data ''access_token'' = Inr tok \<and>
           dict_getitem data ''expires_in'' = Inr ev \<and> py_int ev = Inr n \<and>
           s' = s\<lparr>api_headers := (api_headers s)
                     (''AUTHORIZATION'' \<mapsto> AUTHORIZATION_HEADER_format (capitalize (lower tt)) tok),
                   auth_data_field := Some data,
                   expires_in_field := Some (now + n)\<rparr>"
  using assms
  by (auto simp: auth_data_setter_def Let_def expires_in_setter_Inr split: sum.splits json.splits)

text \<open>The setter raises Python's own exceptions only.\<close>

lemma auth_data_setter_Inl:
  assumes "auth_data_setter data now s = (Inl e, s')"
  shows "\<not> is_grant_failure e"
  using assms
  by (auto simp: auth_data_setter_def Let_def split: sum.splits json.splits
      dest!: dict_getitem_Inl expires_in_setter_Inl)

lemma token_response_Inr:
  assumes "token_response url r s = (Inr data, s')"
  shows "\<exists>kvs. body_json r = Inr (JObj kvs) \<and> data = project CookidooAuthResponse_annotations kvs
      \<and> status r < 400 \<and> status r \<noteq> 401
      \<and> s' = debug (LogResponse url (status r) (if status r \<noteq> 200 then body_text r else [])) s"
proof -
  from assms have st: "status r \<noteq> 401" "status r \<noteq> 400" "status r < 400"
    by (auto simp: token_response_def Let_def raise_for_status_def unauthorized_not_Inr
        split: if_splits)
  show ?thesis
  proof (cases "body_json r")
    case (Inl e)
    with assms st show ?thesis
      by (auto simp: token_response_def Let_def raise_for_status_def and_then_def split: if_splits)
  next
    case (Inr j)
    with assms st show ?thesis
      by (cases j)
         (auto simp: token_response_def Let_def raise_for_status_def and_then_def split: if_splits)
  qed
qed

text \<open>A token request that returns has gone through every step.\<close>

lemma request_access_token_Inr:
  assumes "request_access_token form_data now s net = (Inr v, s')"
  shows "\<exists>r kvs tt tok ev n.
           net = Inr r \<and> status r < 400 \<and> status r \<noteq> 401 \<and> body_json r = Inr (JObj kvs) \<and>
           v = JObj (project CookidooAuthResponse_annotations kvs) \<and>
           dict_getitem (project CookidooAuthResponse_annotations kvs) ''token_type'' = Inr (JStr tt) \<and>
           dict_getitem (project CookidooAuthResponse_annotations kvs) ''access_token'' = Inr tok \<and>
           dict_getitem (project CookidooAuthResponse_annotations kvs) ''expires_in'' = Inr ev \<and>
           py_int ev = Inr n \<and>
           api_headers s' = (api_headers s)
              (''AUTHORIZATION'' \<mapsto> AUTHORIZATION_HEADER_format (capitalize (lower tt)) tok) \<and>
           auth_data_field s' = Some (project CookidooAuthResponse_annotations kvs) \<and>
           expires_in_field s' = Some (now + n) \<and>
           logged s' = logged s @
             [LogResponse TOKEN_ENDPOINT (status r) (if status r \<noteq> 200 then body_text r else [])]"
proof -
  let ?s1 = "session_request \<lparr>req_method = POST, req_url = TOKEN_ENDPOINT,
                req_headers = token_headers s, req_payload = FormData form_data\<rparr> s"
  from assms obtain data s2 where
    ex: "except_request (case net of Inl e \<Rightarrow> (Inl e, ?s1)
                         | Inr r \<Rightarrow> token_response TOKEN_ENDPOINT r ?s1) = (Inr data, s2)"
    and setter: "auth_data_setter data now s2 = (Inr (), s')" and v: "v = JObj data"
    by (auto simp: request_access_token_def Let_def split: prod.splits sum.splits)
  from ex have "(case net of Inl e \<Rightarrow> (Inl e, ?s1)
                 | Inr r \<Rightarrow> token_response TOKEN_ENDPOINT r ?s1) = (Inr data, s2)"
    by (simp add: except_request_Inr)
  then obtain r where net: "net = Inr r"
    and tr: "token_response TOKEN_ENDPOINT r ?s1 = (Inr data, s2)"
    by (cases net) auto
  from token_response_Inr[OF tr] obtain kvs where
    k: "body_json r = Inr (JObj kvs)" "data = project CookidooAuthResponse_annotations kvs"
       "status r < 400" "status r \<noteq> 401"
       "s2 = debug (LogResponse TOKEN_ENDPOINT (status r)
                      (if status r \<noteq> 200 then body_text r else [])) ?s1"
    by blast
  from auth_data_setter_Inr[OF setter] obtain tt tok ev n where
    a: "dict_getitem data ''token_type'' = Inr (JStr tt)"
       "dict_getitem data ''access_token'' = Inr tok"
       "dict_getitem data ''expires_in'' = Inr ev" "py_int ev = Inr n"
       "s' = s2\<lparr>api_headers := (api_headers s2)
                     (''AUTHORIZATION'' \<mapsto> AUTHORIZATION_HEADER_format (capitalize (lower tt)) tok),
                   auth_data_field := Some data,
                   expires_in_field := Some (now + n)\<rparr>"
    by blast
  from k a net v show ?thesis
    by (simp add: debug_def session_request_def)
qed

text \<open>The parts of a call before the setter leave the session's attributes alone.\<close>

lemma token_response_fields:
  "token_response url r s = (x, s') \<Longrightarrow>
     auth_data_field s' = auth_data_field s \<and> api_headers s' = api_headers s \<and>
     expires_in_field s' = expires_in_field s \<and> sent s' = sent s"
  by (auto simp: token_response_def Let_def unauthorized_def debug_def
      split: if_splits sum.splits)

lemma except_request_fields:
  "except_request (x, s) = (y, s') \<Longrightarrow>
     auth_data_field s' = auth_data_field s \<and> api_headers s' = api_headers s \<and>
     expires_in_field s' = expires_in_field s \<and> sent s' = sent s"
  by (auto simp: except_request_def debug_def split: if_splits sum.splits)

lemma request_access_token_Inl:
  assumes "request_access_token form_data now s net = (Inl e, s')" and "is_grant_failure e"
  shows "auth_data_field s' = auth_data_field s \<and> api_headers s' = api_headers s \<and>
         expires_in_field s' = expires_in_field s"
proof -
  let ?s1 = "session_request \<lparr>req_method = POST, req_url = TOKEN_ENDPOINT,
                req_headers = token_headers s, req_payload = FormData form_data\<rparr> s"
  let ?inner = "case net of Inl e \<Rightarrow> (Inl e, ?s1) | Inr r \<Rightarrow> token_response TOKEN_ENDPOINT r ?s1"
  obtain x s2 where ex: "except_request ?inner = (x, s2)" by (cases "except_request ?inner")
  obtain y s1' where inner: "?inner = (y, s1')" by (cases ?inner)
  have f1: "auth_data_field s1' = auth_data_field s \<and> api_headers s1' = api_headers s \<and>
            expires_in_field s1' = expires_in_field s"
  proof (cases net)
    case (Inl a)
    with inner show ?thesis by (auto simp: session_request_def)
  next
    case (Inr r)
    with inner have "token_response TOKEN_ENDPOINT r ?s1 = (y, s1')" by simp
    from token_response_fields[OF this] show ?thesis by (simp add: session_request_def)
  qed
  from ex inner have "except_request (y, s1') = (x, s2)" by simp
  from except_request_fields[OF this] f1
  have f2: "auth_data_field s2 = auth_data_field s \<and> api_headers s2 = api_headers s \<and>
            expires_in_field s2 = expires_in_field s" by simp
  show ?thesis
  proof (cases x)
    case (Inl e')
    with assms(1) ex have "s' = s2"
      by (simp add: request_access_token_def Let_def)
    with f2 show ?thesis by simp
  next
    case (Inr data)
    with assms(1) ex obtain s3 where "auth_data_setter data now s2 = (Inl e, s3)"
      by (auto simp: request_access_token_def Let_def split: prod.splits sum.splits)
    from auth_data_setter_Inl[OF this] assms(2) show ?thesis by simp
  qed
qed

section \<open>Refreshing before any login\<close>

text \<open>
  Claim C3. \<^verbatim>\<open>refresh_token()\<close> on a client that holds no auth data raises
  \<^verbatim>\<open>CookidooConfigException\<close> and leaves the instance as it was: no call has been issued and
  nothing logged, whatever the transport would have answered. A client fresh from
  \<^verbatim>\<open>__init__\<close> is in that state.
\<close>

theorem refresh_token_without_auth_data:
  "(auth_data_field self = None \<longrightarrow>
      refresh_token client_id now self net = (Inl CookidooConfigException, self))
   \<and> refresh_token client_id now (init config token_hdrs api_hdrs) net =
       (Inl CookidooConfigException, init config token_hdrs api_hdrs)"
  by (simp add: refresh_token_def init_def)

theorem refresh_token_without_auth_data_witness:
  "auth_data_field sample_client = None
   \<and> fst (refresh_token ''client'' 1000 sample_client (Inr (respond 200 token_text token_body)))
       = Inl CookidooConfigException
   \<and> sent (snd (refresh_token ''client'' 1000 sample_client
                  (Inr (respond 200 token_text token_body)))) = []"
proof -
  have h: "auth_data_field sample_client = None"
    by (simp add: sample_client_def init_def)
  from refresh_token_without_auth_data[of sample_client "''client''" 1000
         "Inr (respond 200 token_text token_body)"] h
  have "refresh_token ''client'' 1000 sample_client (Inr (respond 200 token_text token_body))
          = (Inl CookidooConfigException, sample_client)"
    by blast
  with h show ?thesis by (simp add: sample_client_def init_def)
qed

lemma request_access_token_replaces:
  assumes "request_access_token form_data now s net = (x, s')"
  shows "(auth_data_field s' = auth_data_field s \<and> api_headers s' = api_headers s \<and>
          expires_in_field s' = expires_in_field s)
       \<or> (\<exists>r kvs. net = Inr r \<and> status r < 400 \<and> status r \<noteq> 401 \<and> body_json r = Inr (JObj kvs))"
proof -
  let ?s1 = "session_request \<lparr>req_method = POST, req_url = TOKEN_ENDPOINT,
                req_headers = token_headers s, req_payload = FormData form_data\<rparr> s"
  let ?inner = "case net of Inl e \<Rightarrow> (Inl e, ?s1) | Inr r \<Rightarrow> token_response TOKEN_ENDPOINT r ?s1"
  obtain y s2 where ex: "except_request ?inner = (y, s2)" by (cases "except_request ?inner")
  show ?thesis
  proof (cases y)
    case (Inl e)
    with assms ex have "request_access_token form_data now s net = (Inl e, s2)"
      by (simp add: request_access_token_def Let_def)
    moreover obtain z s1' where inner: "?inner = (z, s1')" by (cases ?inner)
    have f1: "auth_data_field s1' = auth_data_field s \<and> api_headers s1' = api_headers s \<and>
            expires_in_field s1' = expires_in_field s"
    proof (cases net)
      case (Inl a)
      with inner show ?thesis by (auto simp: session_request_def)
    next
      case (Inr r)
      with inner have "token_response TOKEN_ENDPOINT r ?s1 = (z, s1')" by simp
      from token_response_fields[OF this] show ?thesis by (simp add: session_request_def)
    qed
    from ex inner have "except_request (z, s1') = (y, s2)" by simp
    from except_request_fields[OF this] f1 assms ex Inl show ?thesis
      by (simp add: request_access_token_def Let_def)
  next
    case (Inr data)
    with ex have "?inner = (Inr data, s2)" by (simp add: except_request_Inr)
    then obtain r where "net = Inr r" "token_response TOKEN_ENDPOINT r ?s1 = (Inr data, s2)"
      by (cases net) auto
    with token_response_Inr[OF this(2)] show ?thesis by auto
  qed
qed

section \<open>A failed token request\<close>

text \<open>
  Claim C10. A token request that fails is atomic for the session: whenever \<^verbatim>\<open>login\<close> or
  \<^verbatim>\<open>refresh_token\<close> raises \<^verbatim>\<open>CookidooAuthException\<close>, \<^verbatim>\<open>CookidooRequestException\<close> or
  \<^verbatim>\<open>CookidooParseException\<close>, the held auth data, the API headers (the authorization header
  among them) and the stored expiry are what they were before the call. And when one of the
  three differs after a call, the response had been received with a status that passes and
  a body that decodes to a dict: the session is replaced only after that.
\<close>

theorem failed_grant_keeps_session:
  assumes "g = login now \<or> g = refresh_token client_id now"
  shows "(\<forall>e. fst (g self net) = Inl e \<and> is_grant_failure e \<longrightarrow>
            auth_data_field (snd (g self net)) = auth_data_field self \<and>
            api_headers (snd (g self net)) = api_headers self \<and>
            expires_in_field (snd (g self net)) = expires_in_field self)
       \<and> ((auth_data_field (snd (g self net)) \<noteq> auth_data_field self \<or>
            api_headers (snd (g self net)) \<noteq> api_headers self \<or>
            expires_in_field (snd (g self net)) \<noteq> expires_in_field self) \<longrightarrow>
           (\<exists>r kvs. net = Inr r \<and> status r < 400 \<and> status r \<noteq> 401 \<and>
                    body_json r = Inr (JObj kvs)))"
proof -
  have rat: "\<And>fd. (\<forall>e. fst (request_access_token fd now self net) = Inl e \<and> is_grant_failure e \<longrightarrow>
            auth_data_field (snd (request_access_token fd now self net)) = auth_data_field self \<and>
            api_headers (snd (request_access_token fd now self net)) = api_headers self \<and>
            expires_in_field (snd (request_access_token fd now self net)) = expires_in_field self)
       \<and> ((auth_data_field (snd (request_access_token fd now self net)) \<noteq> auth_data_field self \<or>
            api_headers (snd (request_access_token fd now self net)) \<noteq> api_headers self \<or>
            expires_in_field (snd (request_access_token fd now self net)) \<noteq> expires_in_field self) \<longrightarrow>
           (\<exists>r kvs. net = Inr r \<and> status r < 400 \<and> status r \<noteq> 401 \<and>
                    body_json r = Inr (JObj kvs)))"
  proof -
    fix fd
    obtain x s' where eq: "request_access_token fd now self net = (x, s')"
      by (cases "request_access_token fd now self net")
    from request_access_token_replaces[OF eq] request_access_token_Inl[of fd now self net _ s'] eq
    show "?thesis fd" by auto
  qed
  from assms show ?thesis
  proof
    assume "g = login now"
    with rat show ?thesis by (simp add: login_def)
  next
    assume g: "g = refresh_token client_id now"
    show ?thesis
    proof (cases "\<exists>fd. g self net = request_access_token fd now self net")
      case True
      then obtain fd where "g self net = request_access_token fd now self net" by blast
      with rat[of fd] show ?thesis by simp
    next
      case False
      with g have "snd (g self net) = self"
        by (auto simp: refresh_token_def split: option.splits sum.splits if_splits)
      then show ?thesis by simp
    qed
  qed
qed


theorem failed_grant_keeps_session_witness:
  "fst (refresh_token ''client'' 2000 logged_in_client (Inr (respond 400 ''invalid_grant'' JNull)))
     = Inl CookidooAuthException
   \<and> is_grant_failure CookidooAuthException
   \<and> auth_data_field (snd (refresh_token ''client'' 2000 logged_in_client
                            (Inr (respond 400 ''invalid_grant'' JNull))))
       = auth_data_field logged_in_client
   \<and> api_headers (snd (refresh_token ''client'' 2000 logged_in_client
                            (Inr (respond 400 ''invalid_grant'' JNull)))) ''AUTHORIZATION''
       = Some ''Bearer AT''
   \<and> expires_in_field (snd (refresh_token ''client'' 2000 logged_in_client
                            (Inr (respond 400 ''invalid_grant'' JNull))))
       = Some 4600"
proof -
  let ?net = "Inr (respond 400 ''invalid_grant'' JNull)"
  have h: "fst (refresh_token ''client'' 2000 logged_in_client ?net) = Inl CookidooAuthException"
    by code_simp
  have a: "api_headers logged_in_client ''AUTHORIZATION'' = Some ''Bearer AT''"
    by code_simp
  have b: "expires_in_field logged_in_client = Some 4600"
    by code_simp
  from failed_grant_keeps_session[of "refresh_token ''client'' 2000" 2000 "''client''"
         logged_in_client ?net] h
  have "auth_data_field (snd (refresh_token ''client'' 2000 logged_in_client ?net))
          = auth_data_field logged_in_client \<and>
        api_headers (snd (refresh_token ''client'' 2000 logged_in_client ?net))
          = api_headers logged_in_client \<and>
        expires_in_field (snd (refresh_token ''client'' 2000 logged_in_client ?net))
          = expires_in_field logged_in_client"
    by simp
  with h a b show ?thesis by simp
qed


section \<open>The authorization header\<close>

lemma except_request_sent: "sent (snd (except_request res)) = sent (snd res)"
  by (auto simp: except_request_def debug_def split: prod.splits sum.splits)

lemma unauthorized_sent: "sent (snd (unauthorized r s)) = sent s"
  by (auto simp: unauthorized_def debug_def split: sum.splits)

lemma api_request_sent:
  assumes "\<And>r s. sent (snd (k r s)) = sent s"
  shows "sent (snd (api_request m p pl k s net)) =
           sent s @ [\<lparr>req_method = m, req_url = api_endpoint s p, req_headers = api_headers s,
                      req_payload = pl\<rparr>]"
proof (cases net)
  case (Inl e)
  then show ?thesis
    by (simp add: api_request_def Let_def except_request_sent session_request_def)
next
  case (Inr r)
  show ?thesis
  proof (cases "status r = 401")
    case True
    with Inr show ?thesis
      by (simp add: api_request_def Let_def except_request_sent unauthorized_sent
          session_request_def debug_def)
  next
    case False
    with Inr show ?thesis
      by (cases "raise_for_status r")
         (simp_all add: api_request_def Let_def except_request_sent assms
          session_request_def debug_def)
  qed
qed

lemma parse_response_sent: "sent (snd (parse_response f r s)) = sent s"
  by (auto simp: parse_response_def debug_def split: sum.splits)

text \<open>
  Claim C8. After every token request that returns, by \<^verbatim>\<open>login\<close> or by \<^verbatim>\<open>refresh_token\<close>, the
  value stored under \<^verbatim>\<open>AUTHORIZATION\<close> in the API headers is the capitalized token type, a
  space and the access token of the returned dict, and a following \<^verbatim>\<open>get_additional_items\<close>
  sends that header. For the token type \<^verbatim>\<open>bearer\<close> and the access token \<^verbatim>\<open>AT\<close> the value is
  \<^verbatim>\<open>Bearer AT\<close>.
\<close>

theorem grant_sets_authorization_header:
  assumes "g = login now \<or> g = refresh_token client_id now"
    and "fst (g self net) = Inr v"
  shows "\<exists>tt tok. py_getitem v ''token_type'' = Inr (JStr tt) \<and>
           py_getitem v ''access_token'' = Inr tok \<and>
           api_headers (snd (g self net)) ''AUTHORIZATION''
             = Some (capitalize (lower tt) @ '' '' @ py_str tok) \<and>
           (\<forall>conv net'.
              req_headers (last (sent (snd (get_additional_items conv (snd (g self net)) net'))))
                ''AUTHORIZATION''
              = Some (capitalize (lower tt) @ '' '' @ py_str tok))"
proof -
  from assms obtain fd where fd: "g self net = request_access_token fd now self net"
    by (auto simp: login_def refresh_token_def split: option.splits sum.splits if_splits)
  with assms(2) have "request_access_token fd now self net = (Inr v, snd (g self net))"
    by (metis prod.collapse)
  from request_access_token_Inr[OF this] obtain kvs tt tok where
    v: "v = JObj (project CookidooAuthResponse_annotations kvs)"
    and t: "dict_getitem (project CookidooAuthResponse_annotations kvs) ''token_type'' = Inr (JStr tt)"
           "dict_getitem (project CookidooAuthResponse_annotations kvs) ''access_token'' = Inr tok"
    and h: "api_headers (snd (g self net)) = (api_headers self)
              (''AUTHORIZATION'' \<mapsto> AUTHORIZATION_HEADER_format (capitalize (lower tt)) tok)"
    by blast
  have "\<And>conv net'. req_headers (last (sent (snd (get_additional_items conv (snd (g self net)) net'))))
           = api_headers (snd (g self net))"
    by (simp add: get_additional_items_def api_request_sent parse_response_sent)
  then have sent_hdr: "\<forall>conv net'.
      req_headers (last (sent (snd (get_additional_items conv (snd (g self net)) net'))))
        ''AUTHORIZATION'' = Some (capitalize (lower tt) @ '' '' @ py_str tok)"
    using h by (simp add: AUTHORIZATION_HEADER_format_def)
  from v t have "py_getitem v ''token_type'' = Inr (JStr tt)"
    and "py_getitem v ''access_token'' = Inr tok"
    by (simp_all add: dict_getitem_def)
  moreover from h have "api_headers (snd (g self net)) ''AUTHORIZATION''
      = Some (capitalize (lower tt) @ '' '' @ py_str tok)"
    by (simp add: AUTHORIZATION_HEADER_format_def)
  ultimately show ?thesis using sent_hdr by blast
qed

theorem grant_sets_authorization_header_witness:
  "fst (login 1000 sample_client (Inr (respond 200 token_text token_body))) = Inr token_body
   \<and> api_headers (snd (login 1000 sample_client (Inr (respond 200 token_text token_body))))
        ''AUTHORIZATION'' = Some ''Bearer AT''
   \<and> req_headers (last (sent (snd (get_additional_items Inr
        (snd (login 1000 sample_client (Inr (respond 200 token_text token_body))))
        (Inl TimeoutError))))) ''AUTHORIZATION'' = Some ''Bearer AT''"
proof -
  let ?net = "Inr (respond 200 token_text token_body)"
  have h: "fst (login 1000 sample_client ?net) = Inr token_body"
    by code_simp
  from grant_sets_authorization_header[of "login 1000" 1000 "''client''" sample_client ?net token_body] h
  obtain tt tok where
    t: "py_getitem token_body ''token_type'' = Inr (JStr tt)"
       "py_getitem token_body ''access_token'' = Inr tok"
    and a: "api_headers (snd (login 1000 sample_client ?net)) ''AUTHORIZATION''
             = Some (capitalize (lower tt) @ '' '' @ py_str tok)"
    and b: "\<And>conv net'. req_headers (last (sent (snd (get_additional_items conv
               (snd (login 1000 sample_client ?net)) net')))) ''AUTHORIZATION''
             = Some (capitalize (lower tt) @ '' '' @ py_str tok)"
    by auto
  from t have tt: "tt = ''bearer''" and tok: "tok = JStr ''AT''"
    by (simp_all add: token_body_def)
  have c: "capitalize (lower ''bearer'') @ '' '' @ py_str (JStr ''AT'') = ''Bearer AT''"
    by code_simp
  from h a b[of Inr "Inl TimeoutError"] tt tok c show ?thesis by simp
qed


section \<open>Remaining validity\<close>

text \<open>
  Claim C4. Once an expiry is stored, reading \<^verbatim>\<open>expires_in\<close> at clock value \<open>t\<close> gives
  \<open>max 0 (expiry - t)\<close>; whatever it returns is not negative; a later reading is never greater
  than an earlier one. After a token request made at clock value \<open>t0\<close> that returned a dict
  whose \<^verbatim>\<open>expires_in\<close> converts to \<open>n\<close>, a reading at \<open>t\<close> gives \<open>max 0 (n - (t - t0))\<close>, which
  at \<open>t0\<close> itself is \<open>n\<close> for every \<open>n\<close> that is not negative.
\<close>

theorem expires_in_remaining_validity:
  "(expires_in_field s = Some e \<longrightarrow> expires_in t s = Inr (max 0 (e - t)))
   \<and> (expires_in t s = Inr d \<longrightarrow> 0 \<le> d)
   \<and> (t1 \<le> t2 \<and> expires_in t1 s = Inr d1 \<and> expires_in t2 s = Inr d2 \<longrightarrow> d2 \<le> d1)
   \<and> ((g = login t0 \<or> g = refresh_token client_id t0) \<and> fst (g self net) = Inr v
        \<and> py_getitem v ''expires_in'' = Inr ev \<and> py_int ev = Inr n \<longrightarrow>
        expires_in t (snd (g self net)) = Inr (max 0 (n - (t - t0)))
        \<and> (0 \<le> n \<longrightarrow> expires_in t0 (snd (g self net)) = Inr n))"
proof -
  have a: "expires_in_field s = Some e \<longrightarrow> expires_in t s = Inr (max 0 (e - t))"
    by (simp add: expires_in_def)
  have b: "expires_in t s = Inr d \<longrightarrow> 0 \<le> d"
    by (auto simp: expires_in_def split: option.splits)
  have c: "t1 \<le> t2 \<and> expires_in t1 s = Inr d1 \<and> expires_in t2 s = Inr d2 \<longrightarrow> d2 \<le> d1"
    by (auto simp: expires_in_def split: option.splits)
  have d: "expires_in t (snd (g self net)) = Inr (max 0 (n - (t - t0)))
        \<and> (0 \<le> n \<longrightarrow> expires_in t0 (snd (g self net)) = Inr n)"
    if g: "g = login t0 \<or> g = refresh_token client_id t0" and ok: "fst (g self net) = Inr v"
      and ev: "py_getitem v ''expires_in'' = Inr ev" and n: "py_int ev = Inr n"
  proof -
    from g ok obtain fd where "g self net = request_access_token fd t0 self net"
      by (auto simp: login_def refresh_token_def split: option.splits sum.splits if_splits)
    with ok have "request_access_token fd t0 self net = (Inr v, snd (g self net))"
      by (metis prod.collapse)
    from request_access_token_Inr[OF this] obtain kvs ev' n' where
      v: "v = JObj (project CookidooAuthResponse_annotations kvs)"
      and e: "dict_getitem (project CookidooAuthResponse_annotations kvs) ''expires_in'' = Inr ev'"
             "py_int ev' = Inr n'"
      and x: "expires_in_field (snd (g self net)) = Some (t0 + n')"
      by blast
    from v e(1) ev have "ev' = ev" by (simp add: dict_getitem_def)
    with e(2) n have "n' = n" by simp
    with x show ?thesis by (simp add: expires_in_def)
  qed
  from a b c d show ?thesis by blast
qed

theorem expires_in_remaining_validity_witness:
  "expires_in_field logged_in_client = Some 4600
   \<and> fst (login 1000 sample_client (Inr (respond 200 token_text token_body))) = Inr token_body
   \<and> py_getitem token_body ''expires_in'' = Inr (JInt 3600) \<and> py_int (JInt 3600) = Inr 3600
   \<and> expires_in 1000 logged_in_client = Inr 3600
   \<and> expires_in 1010 logged_in_client = Inr 3590
   \<and> expires_in 5000 logged_in_client = Inr 0
   \<and> (1010::int) \<le> 5000 \<and> (0::int) \<le> 3590 \<and> (0::int) \<le> 3600"
proof -
  let ?net = "Inr (respond 200 token_text token_body)"
  have h: "fst (login 1000 sample_client ?net) = Inr token_body" by code_simp
  have e: "py_getitem token_body ''expires_in'' = Inr (JInt 3600)" by (simp add: token_body_def)
  have f: "expires_in_field logged_in_client = Some 4600" by code_simp
  from expires_in_remaining_validity[of logged_in_client 4600 1010 3590 1010 5000 3590 0
         "login 1000" 1000 "''client''" sample_client ?net token_body "JInt 3600" 3600] h e f
  have "expires_in 1010 logged_in_client = Inr 3590 \<and> expires_in 1000 logged_in_client = Inr 3600"
    by (simp add: logged_in_client_def)
  moreover
  from expires_in_remaining_validity[of logged_in_client 4600 5000 0 1010 5000 3590 0
         "login 1000" 1000 "''client''" sample_client ?net token_body "JInt 3600" 3600] f
  have "expires_in 5000 logged_in_client = Inr 0" by simp
  ultimately show ?thesis using h e f by simp
qed


section \<open>Classifying the status\<close>

lemma api_request_status_error:
  "400 \<le> status r \<Longrightarrow> status r \<noteq> 401 \<Longrightarrow>
     fst (api_request m p pl k s (Inr r)) = Inl (CookidooRequestException (ClientResponseError (status r)))"
  by (simp add: api_request_def Let_def raise_for_status_def except_request_def)

lemma request_access_token_400:
  "status r = 400 \<Longrightarrow> fst (request_access_token fd now s (Inr r)) = Inl CookidooAuthException"
  by (simp add: request_access_token_def Let_def token_response_def except_request_def)

lemma api_request_parse_status:
  assumes "status r < 400"
  shows "fst (api_request m p pl (parse_response f) s (Inr (r\<lparr>status := 200\<rparr>)))
           = fst (api_request m p pl (parse_response f) s (Inr r))"
proof -
  from assms have "status r \<noteq> 401" by simp
  with assms show ?thesis
    by (simp add: api_request_def Let_def raise_for_status_def parse_response_def
        except_request_def split: sum.splits)
qed

lemma api_request_no_response:
  assumes "status r < 400"
  shows "fst (api_request m p pl no_response s (Inr r)) = Inr JNull"
proof -
  from assms have "status r \<noteq> 401" by simp
  with assms show ?thesis
    by (simp add: api_request_def Let_def raise_for_status_def no_response_def
        except_request_def)
qed

text \<open>
  Claim C2, as the code has it. A 400 from the token endpoint makes \<^verbatim>\<open>login\<close> raise
  \<^verbatim>\<open>CookidooAuthException\<close>, and \<^verbatim>\<open>refresh_token\<close> too when the client holds a refresh token.
  On every other method a status of 400 or above, other than 401, raises
  \<^verbatim>\<open>CookidooRequestException\<close> whose cause is the \<^verbatim>\<open>ClientResponseError\<close> carrying that status;
  for the editing methods this is said of the calls whose payload could be built. A status
  below 400 is not an error to \<^verbatim>\<open>raise_for_status\<close>: the methods that read no body return
  \<^verbatim>\<open>None\<close>, and every method does with the response what it does with the same response
  under status 200.
\<close>

theorem error_status_classification:
  "(status r = 400 \<longrightarrow>
      fst (login now self (Inr r)) = Inl CookidooAuthException
      \<and> (auth_data_field self = Some d \<and> map_of d ''refresh_token'' = Some tok \<longrightarrow>
           fst (refresh_token client_id now self (Inr r)) = Inl CookidooAuthException))
   \<and> (400 \<le> status r \<and> status r \<noteq> 401 \<and>
       (call \<in> {get_user_info user_fields, get_active_subscription subscription_fields,
                get_recipe_details conv ident, get_shopping_list_recipes conv,
                get_ingredient_items conv, add_ingredient_items_for_recipes conv ids,
                remove_ingredient_items_for_recipes ids, get_additional_items conv,
                add_additional_items conv ids, remove_additional_items ids,
                clear_shopping_list}
        \<or> call = edit_ingredient_items_ownership conv items now
            \<and> comprehension (ownership_entry now) items = Inr entries
        \<or> call = edit_additional_items conv items
            \<and> comprehension name_entry items = Inr entries
        \<or> call = edit_additional_items_ownership conv items now
            \<and> comprehension (ownership_entry now) items = Inr entries)
      \<longrightarrow> fst (call self (Inr r)) = Inl (CookidooRequestException (ClientResponseError (status r))))
   \<and> (status r < 400 \<longrightarrow> raise_for_status r = Inr ())
   \<and> (status r < 400 \<and> call \<in> {remove_ingredient_items_for_recipes ids, remove_additional_items ids,
                clear_shopping_list}
      \<longrightarrow> fst (call self (Inr r)) = Inr JNull)
   \<and> (status r < 400 \<and> call \<in> {get_user_info user_fields, get_active_subscription subscription_fields,
                get_recipe_details conv ident, get_shopping_list_recipes conv,
                get_ingredient_items conv, add_ingredient_items_for_recipes conv ids,
                remove_ingredient_items_for_recipes ids,
                edit_ingredient_items_ownership conv items now, get_additional_items conv,
                add_additional_items conv ids, edit_additional_items conv items,
                edit_additional_items_ownership conv items now, remove_additional_items ids,
                clear_shopping_list}
      \<longrightarrow> fst (call self (Inr r)) = fst (call self (Inr (r\<lparr>status := 200\<rparr>))))"
proof -
  have token: "status r = 400 \<longrightarrow>
      fst (login now self (Inr r)) = Inl CookidooAuthException
      \<and> (auth_data_field self = Some d \<and> map_of d ''refresh_token'' = Some tok \<longrightarrow>
           fst (refresh_token client_id now self (Inr r)) = Inl CookidooAuthException)"
    by (auto simp: login_def refresh_token_def dict_getitem_def request_access_token_400)
  have api: "fst (call self (Inr r)) = Inl (CookidooRequestException (ClientResponseError (status r)))"
    if st: "400 \<le> status r" "status r \<noteq> 401"
      and c: "(call \<in> {get_user_info user_fields, get_active_subscription subscription_fields,
                get_recipe_details conv ident, get_shopping_list_recipes conv,
                get_ingredient_items conv, add_ingredient_items_for_recipes conv ids,
                remove_ingredient_items_for_recipes ids, get_additional_items conv,
                add_additional_items conv ids, remove_additional_items ids,
                clear_shopping_list}
        \<or> call = edit_ingredient_items_ownership conv items now
            \<and> comprehension (ownership_entry now) items = Inr entries
        \<or> call = edit_additional_items conv items
            \<and> comprehension name_entry items = Inr entries
        \<or> call = edit_additional_items_ownership conv items now
            \<and> comprehension (ownership_entry now) items = Inr entries)"
  proof -
    note e = api_request_status_error[OF st]
    from c show ?thesis
      by (elim disjE insertE emptyE conjE)
         (simp_all add: e get_user_info_def get_active_subscription_def get_recipe_details_def
           get_shopping_list_recipes_def get_ingredient_items_def
           add_ingredient_items_for_recipes_def remove_ingredient_items_for_recipes_def
           get_additional_items_def add_additional_items_def remove_additional_items_def
           clear_shopping_list_def edit_ingredient_items_ownership_def
           edit_additional_items_def edit_additional_items_ownership_def)
  qed
  have passes: "status r < 400 \<longrightarrow> raise_for_status r = Inr ()"
    by (simp add: raise_for_status_def)
  have noread: "fst (call self (Inr r)) = Inr JNull"
    if st: "status r < 400" and c: "call \<in> {remove_ingredient_items_for_recipes ids, remove_additional_items ids,
                clear_shopping_list}"
    using c
    by (elim insertE emptyE)
       (simp_all add: api_request_no_response[OF st] remove_ingredient_items_for_recipes_def
          remove_additional_items_def clear_shopping_list_def)
  have same: "fst (call self (Inr r)) = fst (call self (Inr (r\<lparr>status := 200\<rparr>)))"
    if st: "status r < 400" and c: "call \<in> {get_user_info user_fields, get_active_subscription subscription_fields,
                get_recipe_details conv ident, get_shopping_list_recipes conv,
                get_ingredient_items conv, add_ingredient_items_for_recipes conv ids,
                remove_ingredient_items_for_recipes ids,
                edit_ingredient_items_ownership conv items now, get_additional_items conv,
                add_additional_items conv ids, edit_additional_items conv items,
                edit_additional_items_ownership conv items now, remove_additional_items ids,
                clear_shopping_list}"
  proof -
    have st200: "status (r\<lparr>status := 200\<rparr>) < 400" by simp
    note p = api_request_parse_status[OF st]
    note n = api_request_no_response[OF st] api_request_no_response[OF st200]
    from c show ?thesis
      by (elim insertE emptyE)
         (simp_all add: p n get_user_info_def get_active_subscription_def get_recipe_details_def
           get_shopping_list_recipes_def get_ingredient_items_def
           add_ingredient_items_for_recipes_def remove_ingredient_items_for_recipes_def
           get_additional_items_def add_additional_items_def remove_additional_items_def
           clear_shopping_list_def edit_ingredient_items_ownership_def
           edit_additional_items_def edit_additional_items_ownership_def split: sum.splits)
  qed
  from token api passes noread same show ?thesis by blast
qed

theorem error_status_classification_witness:
  "fst (login 1000 sample_client (Inr (respond 400 ''invalid_grant'' JNull))) = Inl CookidooAuthException
   \<and> auth_data_field logged_in_client = Some [(''access_token'', JStr ''AT''),
         (''refresh_token'', JStr ''RT''), (''token_type'', JStr ''bearer''), (''expires_in'', JInt 3600)]
   \<and> fst (refresh_token ''client'' 2000 logged_in_client (Inr (respond 400 ''invalid_grant'' JNull)))
       = Inl CookidooAuthException
   \<and> fst (get_user_info [''username''] logged_in_client (Inr (respond 400 ''bad'' JNull)))
       = Inl (CookidooRequestException (ClientResponseError 400))
   \<and> fst (edit_additional_items Inr [JObj [(''id'', JStr ''1''), (''name'', JStr ''Milk'')]]
             logged_in_client (Inr (respond 503 ''down'' JNull)))
       = Inl (CookidooRequestException (ClientResponseError 503))
   \<and> raise_for_status (respond 304 [] JNull) = Inr ()
   \<and> fst (remove_additional_items [''1''] logged_in_client (Inr (respond 304 [] JNull))) = Inr JNull
   \<and> fst (get_user_info [''username''] logged_in_client
            (Inr (respond 300 ''{...}'' (JObj [(''userInfo'', JObj [(''username'', JStr ''cook'')])]))))
       = Inr (JObj [(''username'', JStr ''cook'')])"
proof -
  let ?r = "respond 400 ''invalid_grant'' JNull"
  let ?d = "[(''access_token'', JStr ''AT''), (''refresh_token'', JStr ''RT''),
             (''token_type'', JStr ''bearer''), (''expires_in'', JInt 3600)]"
  let ?u = "JObj [(''userInfo'', JObj [(''username'', JStr ''cook'')])]"
  have st: "status ?r = 400" "status (respond 400 ''bad'' JNull) = 400"
    "status (respond 503 ''down'' JNull) = 503" "status (respond 304 [] JNull) = 304"
    "status (respond 300 ''{...}'' ?u) = 300"
    by (simp_all add: respond_def)
  have a: "auth_data_field logged_in_client = Some ?d" by code_simp
  have p: "comprehension name_entry [JObj [(''id'', JStr ''1''), (''name'', JStr ''Milk'')]]
            = Inr [JObj [(''id'', JStr ''1''), (''name'', JStr ''Milk'')]]"
    by (simp add: name_entry_def and_then_def)
  from error_status_classification[where r="?r" and now=1000 and self=sample_client] st
  have 1: "fst (login 1000 sample_client (Inr ?r)) = Inl CookidooAuthException" by simp
  from error_status_classification[where r="?r" and now=2000 and self=logged_in_client
      and d="?d" and tok="JStr ''RT''" and client_id="''client''"] st a
  have 2: "fst (refresh_token ''client'' 2000 logged_in_client (Inr ?r)) = Inl CookidooAuthException"
    by simp
  from error_status_classification[where r="respond 400 ''bad'' JNull"
      and call="get_user_info [''username'']" and user_fields="[''username'']"
      and self=logged_in_client] st
  have 3: "fst (get_user_info [''username''] logged_in_client (Inr (respond 400 ''bad'' JNull)))
       = Inl (CookidooRequestException (ClientResponseError 400))" by simp
  from error_status_classification[where r="respond 503 ''down'' JNull"
      and call="edit_additional_items Inr [JObj [(''id'', JStr ''1''), (''name'', JStr ''Milk'')]]"
      and conv=Inr and items="[JObj [(''id'', JStr ''1''), (''name'', JStr ''Milk'')]]"
      and entries="[JObj [(''id'', JStr ''1''), (''name'', JStr ''Milk'')]]"
      and self=logged_in_client] st p
  have 4: "fst (edit_additional_items Inr [JObj [(''id'', JStr ''1''), (''name'', JStr ''Milk'')]]
             logged_in_client (Inr (respond 503 ''down'' JNull)))
       = Inl (CookidooRequestException (ClientResponseError 503))" by simp
  from error_status_classification[where r="respond 304 [] JNull"
      and call="remove_additional_items [''1'']" and ids="[''1'']" and self=logged_in_client] st
  have 5: "raise_for_status (respond 304 [] JNull) = Inr ()"
    and 6: "fst (remove_additional_items [''1''] logged_in_client (Inr (respond 304 [] JNull)))
              = Inr JNull"
    by simp_all
  have e: "fst (get_user_info [''username''] logged_in_client
                 (Inr ((respond 300 ''{...}'' ?u)\<lparr>status := 200\<rparr>)))
             = Inr (JObj [(''username'', JStr ''cook'')])"
    by code_simp
  from error_status_classification[where r="respond 300 ''{...}'' ?u"
      and call="get_user_info [''username'']" and user_fields="[''username'']"
      and self=logged_in_client] st e
  have 7: "fst (get_user_info [''username''] logged_in_client (Inr (respond 300 ''{...}'' ?u)))
             = Inr (JObj [(''username'', JStr ''cook'')])"
    by simp
  from 1 2 3 4 5 6 7 a show ?thesis by simp
qed

text \<open>On a 304, \<^verbatim>\<open>clear_shopping_list\<close> returns \<^verbatim>\<open>None\<close>.\<close>

theorem redirect_status_counterexample:
  "fst (clear_shopping_list logged_in_client
          (Inr \<lparr>status = 304, body_text = [], body_json = Inl ClientError\<rparr>)) = Inr JNull"
  by code_simp

section \<open>A 401 whose body has no description\<close>

text \<open>What a 401 leads to, in every method built on the common frame and in the token request.\<close>

lemma py_getitem_Inl: "py_getitem v k = Inl e \<Longrightarrow> e = KeyError k \<or> e = TypeError"
  by (cases v) (auto split: option.splits)

lemma api_request_unauthorized:
  assumes "status r = 401"
  shows "fst (api_request m p pl k s (Inr r)) =
           (case body_json r of
              Inl e \<Rightarrow>
                (if e = JSONDecodeError \<or> is_ClientError e then Inl CookidooAuthException
                 else if e = TimeoutError then Inl (CookidooRequestException e)
                 else Inl e)
            | Inr errmsg \<Rightarrow>
                (case py_getitem errmsg ''error_description'' of
                   Inl e \<Rightarrow> Inl e
                 | Inr d \<Rightarrow> Inl CookidooAuthException))"
  using assms
  by (auto simp: api_request_def Let_def unauthorized_def except_request_def
      split: sum.splits dest: py_getitem_Inl)

lemma request_access_token_unauthorized:
  assumes "status r = 401"
  shows "fst (request_access_token fd now s (Inr r)) =
           (case body_json r of
              Inl e \<Rightarrow>
                (if e = JSONDecodeError \<or> is_ClientError e then Inl CookidooAuthException
                 else if e = TimeoutError then Inl (CookidooRequestException e)
                 else Inl e)
            | Inr errmsg \<Rightarrow>
                (case py_getitem errmsg ''error_description'' of
                   Inl e \<Rightarrow> Inl e
                 | Inr d \<Rightarrow> Inl CookidooAuthException))"
  using assms
  by (auto simp: request_access_token_def token_response_def Let_def unauthorized_def
      except_request_def split: sum.splits dest: py_getitem_Inl)

text \<open>
  Claim C1, where the code departs from it. A 401 whose body does not decode, or decodes to a
  dict with an \<^verbatim>\<open>error_description\<close>, raises \<^verbatim>\<open>CookidooAuthException\<close> (the last two lines).
  A 401 whose body decodes to the empty dict raises \<^verbatim>\<open>KeyError\<close> from the \<^verbatim>\<open>else\<close> branch in
  every method, the token request included.
\<close>

theorem unauthorized_without_description:
  "fst (login 1000 sample_client (Inr (respond 401 ''{}'' (JObj []))))
     = Inl (KeyError ''error_description'')
   \<and> fst (refresh_token ''client'' 2000 logged_in_client (Inr (respond 401 ''{}'' (JObj []))))
     = Inl (KeyError ''error_description'')
   \<and> fst (get_user_info [''username''] logged_in_client (Inr (respond 401 ''{}'' (JObj []))))
     = Inl (KeyError ''error_description'')
   \<and> fst (get_active_subscription [''active''] logged_in_client (Inr (respond 401 ''{}'' (JObj []))))
     = Inl (KeyError ''error_description'')
   \<and> fst (get_recipe_details Inr ''r59322'' logged_in_client (Inr (respond 401 ''{}'' (JObj []))))
     = Inl (KeyError ''error_description'')
   \<and> fst (get_shopping_list_recipes Inr logged_in_client (Inr (respond 401 ''{}'' (JObj []))))
     = Inl (KeyError ''error_description'')
   \<and> fst (get_ingredient_items Inr logged_in_client (Inr (respond 401 ''{}'' (JObj []))))
     = Inl (KeyError ''error_description'')
   \<and> fst (add_ingredient_items_for_recipes Inr [''r59322''] logged_in_client
            (Inr (respond 401 ''{}'' (JObj []))))
     = Inl (KeyError ''error_description'')
   \<and> fst (remove_ingredient_items_for_recipes [''r59322''] logged_in_client
            (Inr (respond 401 ''{}'' (JObj []))))
     = Inl (KeyError ''error_description'')
   \<and> fst (edit_ingredient_items_ownership Inr [JObj [(''id'', JStr ''1''), (''is_owned'', JBool True)]]
            2000 logged_in_client (Inr (respond 401 ''{}'' (JObj []))))
     = Inl (KeyError ''error_description'')
   \<and> fst (get_additional_items Inr logged_in_client (Inr (respond 401 ''{}'' (JObj []))))
     = Inl (KeyError ''error_description'')
   \<and> fst (add_additional_items Inr [''Milk''] logged_in_client (Inr (respond 401 ''{}'' (JObj []))))
     = Inl (KeyError ''error_description'')
   \<and> fst (edit_additional_items Inr [JObj [(''id'', JStr ''1''), (''name'', JStr ''Milk'')]]
            logged_in_client (Inr (respond 401 ''{}'' (JObj []))))
     = Inl (KeyError ''error_description'')
   \<and> fst (edit_additional_items_ownership Inr [JObj [(''id'', JStr ''1''), (''is_owned'', JBool True)]]
            2000 logged_in_client (Inr (respond 401 ''{}'' (JObj []))))
     = Inl (KeyError ''error_description'')
   \<and> fst (remove_additional_items [''1''] logged_in_client (Inr (respond 401 ''{}'' (JObj []))))
     = Inl (KeyError ''error_description'')
   \<and> fst (clear_shopping_list logged_in_client (Inr (respond 401 ''{}'' (JObj []))))
     = Inl (KeyError ''error_description'')
   \<and> fst (clear_shopping_list logged_in_client
            (Inr \<lparr>status = 401, body_text = ''denied'', body_json = Inl JSONDecodeError\<rparr>))
     = Inl CookidooAuthException
   \<and> fst (clear_shopping_list logged_in_client
            (Inr (respond 401 ''{}'' (JObj [(''error_description'', JStr ''expired'')]))))
     = Inl CookidooAuthException"
  by code_simp

section \<open>What the token request logs\<close>

text \<open>
  A token request answered with 200 logs the response line with the empty text and, if it
  fails, the traceback; the body text is in neither.
\<close>

lemma token_response_logged_200:
  assumes "status r = 200" "token_response url r s = (x, s')"
  shows "set (logged s') \<subseteq> set (logged s) \<union> {LogResponse url 200 []} \<union> range LogTraceback"
  using assms
  by (auto simp: token_response_def Let_def raise_for_status_def debug_def
      split: sum.splits if_splits)

lemma except_request_logged:
  "except_request (x, s) = (y, s') \<Longrightarrow> set (logged s') \<subseteq> set (logged s) \<union> range LogTraceback"
  by (auto simp: except_request_def debug_def split: sum.splits if_splits)

lemma auth_data_setter_logged: "auth_data_setter data now s = (x, s') \<Longrightarrow> logged s' = logged s"
  by (auto simp: auth_data_setter_def expires_in_setter_def Let_def
      split: sum.splits json.splits)

lemma request_access_token_logged_200:
  assumes "status r = 200"
  shows "set (logged (snd (request_access_token fd now s (Inr r))))
           \<subseteq> set (logged s) \<union> {LogResponse TOKEN_ENDPOINT 200 []} \<union> range LogTraceback"
proof -
  let ?s1 = "session_request \<lparr>req_method = POST, req_url = TOKEN_ENDPOINT,
                req_headers = token_headers s, req_payload = FormData fd\<rparr> s"
  obtain x s2 where tr: "token_response TOKEN_ENDPOINT r ?s1 = (x, s2)"
    by (cases "token_response TOKEN_ENDPOINT r ?s1")
  obtain y s3 where ex: "except_request (x, s2) = (y, s3)" by (cases "except_request (x, s2)")
  have l1: "logged ?s1 = logged s" by (simp add: session_request_def)
  from token_response_logged_200[OF assms tr] l1 except_request_logged[OF ex]
  have l3: "set (logged s3) \<subseteq> set (logged s) \<union> {LogResponse TOKEN_ENDPOINT 200 []} \<union> range LogTraceback"
    by auto
  show ?thesis
  proof (cases y)
    case (Inl e)
    with tr ex have "snd (request_access_token fd now s (Inr r)) = s3"
      by (simp add: request_access_token_def Let_def)
    with l3 show ?thesis by simp
  next
    case (Inr data)
    obtain z s4 where st: "auth_data_setter data now s3 = (z, s4)"
      by (cases "auth_data_setter data now s3")
    with Inr tr ex have "snd (request_access_token fd now s (Inr r)) = s4"
      by (cases z) (simp_all add: request_access_token_def Let_def)
    with auth_data_setter_logged[OF st] l3 show ?thesis by simp
  qed
qed

text \<open>
  Claim C9, where the code departs from it. A token request answered with 201 and a token
  body returns the tokens and stores them, and the response line it has logged carries the
  body text; answered with 200 the line carries the empty text.
\<close>

theorem token_logged_on_201:
  "fst (login 1000 sample_client (Inr (respond 201 token_text token_body))) = Inr token_body
   \<and> logged (snd (login 1000 sample_client (Inr (respond 201 token_text token_body))))
       = [LogResponse TOKEN_ENDPOINT 201 token_text]
   \<and> logged (snd (login 1000 sample_client (Inr (respond 200 token_text token_body))))
       = [LogResponse TOKEN_ENDPOINT 200 []]"
  by code_simp


section \<open>Reading the body\<close>

lemma api_request_parse:
  assumes "status r < 400" "status r \<noteq> 401"
  shows "fst (api_request m p pl (parse_response f) s (Inr r)) =
           (case and_then (body_json r) f of
              Inl e \<Rightarrow>
                (if e = JSONDecodeError \<or> is_KeyError e then Inl (CookidooParseException e)
                 else if e = TimeoutError \<or> is_ClientError e then Inl (CookidooRequestException e)
                 else Inl e)
            | Inr v \<Rightarrow> Inr v)"
  using assms
  by (auto simp: api_request_def Let_def raise_for_status_def parse_response_def
      except_request_def split: sum.splits)

lemma first_active_find:
  "\<forall>s\<in>set subs. has_active_flag s \<Longrightarrow> first_active subs = Inr (find is_active subs)"
proof (induction subs)
  case Nil
  then show ?case by simp
next
  case (Cons s subs)
  from Cons.prems have "has_active_flag s" by simp
  then obtain kvs b where s: "s = JObj kvs" "map_of kvs ''active'' = Some (JBool b)"
    by (cases s) (auto split: option.splits json.splits)
  with Cons show ?case by (simp add: is_active_def)
qed

lemma find_is_active_JObj:
  "find is_active subs = Some s \<Longrightarrow> \<exists>kvs. s = JObj kvs \<and> kvs \<noteq> []"
proof -
  assume "find is_active subs = Some s"
  then have "is_active s" by (auto simp: find_Some_iff)
  then show ?thesis by (cases s) (auto simp: is_active_def split: option.splits)
qed

lemma read_active_subscription_list:
  assumes "\<forall>s\<in>set subs. has_active_flag s"
  shows "read_active_subscription declared (JList subs) =
           (case find is_active subs of
              None \<Rightarrow> Inr JNull
            | Some s \<Rightarrow> (case s of JObj kvs \<Rightarrow> Inr (JObj (project declared kvs)) | _ \<Rightarrow> Inr JNull))"
proof (cases "find is_active subs")
  case None
  with assms show ?thesis
    by (simp add: read_active_subscription_def and_then_def first_active_find)
next
  case (Some s)
  from find_is_active_JObj[OF this] obtain kvs where "s = JObj kvs" "kvs \<noteq> []" by blast
  with Some assms show ?thesis
    by (simp add: read_active_subscription_def and_then_def first_active_find)
qed

text \<open>
  Claim C6. On a 2xx response whose body is an array of subscriptions, each a dict whose
  \<^verbatim>\<open>active\<close> is a bool, \<^verbatim>\<open>get_active_subscription\<close> returns the declared fields of the first
  element whose \<^verbatim>\<open>active\<close> is true, and returns \<^verbatim>\<open>None\<close>, raising nothing, when no element has
  it true; the empty array is such a body.
\<close>

theorem active_subscription_selected:
  assumes "200 \<le> status r" "status r < 300" "body_json r = Inr (JList subs)"
    and "\<forall>s\<in>set subs. has_active_flag s"
  shows "(find is_active subs = None \<longrightarrow>
            fst (get_active_subscription declared self (Inr r)) = Inr JNull)
       \<and> (\<forall>s. find is_active subs = Some s \<longrightarrow>
            (\<exists>kvs. s = JObj kvs \<and>
               fst (get_active_subscription declared self (Inr r)) = Inr (JObj (project declared kvs))))"
proof -
  from assms(1,2) have st: "status r < 400" "status r \<noteq> 401" by auto
  have res: "fst (get_active_subscription declared self (Inr r)) =
           (case find is_active subs of
              None \<Rightarrow> Inr JNull
            | Some s \<Rightarrow> (case s of JObj kvs \<Rightarrow> Inr (JObj (project declared kvs)) | _ \<Rightarrow> Inr JNull))"
    by (simp add: get_active_subscription_def api_request_parse[OF st] assms(3) and_then_def
        read_active_subscription_list[OF assms(4)] split: option.splits json.splits)
  show ?thesis
  proof (intro conjI allI impI)
    assume "find is_active subs = None"
    with res show "fst (get_active_subscription declared self (Inr r)) = Inr JNull" by simp
  next
    fix s assume f: "find is_active subs = Some s"
    from find_is_active_JObj[OF f] obtain kvs where "s = JObj kvs" by blast
    with res f show "\<exists>kvs. s = JObj kvs \<and>
               fst (get_active_subscription declared self (Inr r)) = Inr (JObj (project declared kvs))"
      by simp
  qed
qed

theorem active_subscription_selected_witness:
  "fst (get_active_subscription [''active'', ''type''] logged_in_client
          (Inr (respond 200 ''[...]'' (JList sample_subscriptions))))
     = Inr (JObj [(''active'', JBool True), (''type'', JStr ''TRIAL'')])
   \<and> fst (get_active_subscription [''active'', ''type''] logged_in_client
          (Inr (respond 200 ''[]'' (JList []))))
     = Inr JNull
   \<and> fst (get_active_subscription [''active'', ''type''] logged_in_client
          (Inr (respond 200 ''[...]'' (JList [JObj [(''active'', JBool False)]]))))
     = Inr JNull"
proof -
  have f: "find is_active sample_subscriptions
             = Some (JObj [(''active'', JBool True), (''type'', JStr ''TRIAL''), (''internal'', JInt 7)])"
    by (simp add: sample_subscriptions_def is_active_def)
  have h: "\<forall>s\<in>set sample_subscriptions. has_active_flag s"
    by (simp add: sample_subscriptions_def)
  from active_subscription_selected[of "respond 200 ''[...]'' (JList sample_subscriptions)"
         sample_subscriptions "[''active'', ''type'']" logged_in_client] f h
  have 1: "fst (get_active_subscription [''active'', ''type''] logged_in_client
          (Inr (respond 200 ''[...]'' (JList sample_subscriptions))))
     = Inr (JObj (project [''active'', ''type'']
          [(''active'', JBool True), (''type'', JStr ''TRIAL''), (''internal'', JInt 7)]))"
    by (simp add: respond_def)
  from active_subscription_selected[of "respond 200 ''[]'' (JList [])" "[]"
         "[''active'', ''type'']" logged_in_client]
  have 2: "fst (get_active_subscription [''active'', ''type''] logged_in_client
          (Inr (respond 200 ''[]'' (JList [])))) = Inr JNull"
    by (simp add: respond_def)
  from active_subscription_selected[of "respond 200 ''[...]'' (JList [JObj [(''active'', JBool False)]])"
         "[JObj [(''active'', JBool False)]]" "[''active'', ''type'']" logged_in_client]
  have 3: "fst (get_active_subscription [''active'', ''type''] logged_in_client
          (Inr (respond 200 ''[...]'' (JList [JObj [(''active'', JBool False)]])))) = Inr JNull"
    by (simp add: respond_def is_active_def)
  from 1 2 3 show ?thesis by (simp add: project_def)
qed


lemma and_then_Inr: "and_then (Inr v) f = f v"
  by (simp add: and_then_def)

lemma and_then_Inl: "and_then (Inl e) f = Inl e"
  by (simp add: and_then_def)

lemma comprehension_map:
  "\<forall>x\<in>set xs. f x = Inr (g x) \<Longrightarrow> comprehension f xs = Inr (map g xs)"
  by (induction xs) auto

lemma length_concat_uniform:
  "\<forall>xs\<in>set xss. length xs = g \<Longrightarrow> length (concat xss) = length xss * g"
  by (induction xss) auto

lemma comprehension_groups:
  assumes "list_all2 (\<lambda>recipe gs. py_getitem recipe ''recipeIngredientGroups'' = Inr (JList gs))
             recipes groups"
    and "\<forall>gs\<in>set groups. \<forall>x\<in>set gs. conv x = Inr (item x)"
  shows "comprehension
           (\<lambda>recipe. and_then (and_then (py_getitem recipe ''recipeIngredientGroups'') py_iter)
                        (comprehension conv)) recipes
         = Inr (map (map item) groups)"
  using assms
proof (induction recipes groups rule: list_all2_induct)
  case Nil
  then show ?case by simp
next
  case (Cons recipe recipes gs groups)
  from Cons.prems have "\<forall>x\<in>set gs. conv x = Inr (item x)" by simp
  from comprehension_map[OF this] Cons show ?case
    by (simp add: and_then_def)
qed

text \<open>
  Claim C7. On a 2xx response, \<^verbatim>\<open>get_ingredient_items\<close> flattens the groups under
  \<^verbatim>\<open>recipes[].recipeIngredientGroups[]\<close> into one list, recipe by recipe and inside a recipe
  group by group, each group converted; when every one of the \<open>r\<close> recipes has \<open>g\<close> groups the
  list has \<open>r * g\<close> records. The converter of \<^verbatim>\<open>helpers.py\<close> is an argument and is taken to
  return on every group of the body.
\<close>

theorem ingredient_items_flattened:
  assumes "200 \<le> status r" "status r < 300" "body_json r = Inr body"
    and "py_getitem body ''recipes'' = Inr (JList recipes)"
    and "list_all2 (\<lambda>recipe gs. py_getitem recipe ''recipeIngredientGroups'' = Inr (JList gs))
           recipes groups"
    and "\<forall>gs\<in>set groups. \<forall>x\<in>set gs. conv x = Inr (item x)"
  shows "fst (get_ingredient_items conv self (Inr r)) = Inr (JList (map item (concat groups)))
       \<and> ((\<forall>gs\<in>set groups. length gs = g) \<longrightarrow>
            length (map item (concat groups)) = length recipes * g)"
proof -
  from assms(1,2) have st: "status r < 400" "status r \<noteq> 401" by auto
  have "read_groups ''recipes'' conv body = Inr (JList (concat (map (map item) groups)))"
    by (simp add: read_groups_def assms(4) and_then_Inr comprehension_groups[OF assms(5,6)])
  then have "fst (get_ingredient_items conv self (Inr r)) = Inr (JList (map item (concat groups)))"
    by (simp add: get_ingredient_items_def api_request_parse[OF st] assms(3) and_then_Inr
        map_concat)
  moreover from assms(5) have "length groups = length recipes"
    by (simp add: list_all2_lengthD)
  ultimately show ?thesis using length_concat_uniform[of groups g] by simp
qed

theorem ingredient_items_flattened_witness:
  "fst (get_ingredient_items Inr logged_in_client (Inr (respond 200 ''{...}'' sample_ingredients)))
     = Inr (JList [JStr ''a1'', JStr ''a2'', JStr ''b1'', JStr ''b2''])
   \<and> length [JStr ''a1'', JStr ''a2'', JStr ''b1'', JStr ''b2''] = 2 * 2"
proof -
  let ?recipes = "[JObj [(''id'', JStr ''r1''),
                     (''recipeIngredientGroups'', JList [JStr ''a1'', JStr ''a2''])],
               JObj [(''id'', JStr ''r2''),
                     (''recipeIngredientGroups'', JList [JStr ''b1'', JStr ''b2''])]]"
  let ?groups = "[[JStr ''a1'', JStr ''a2''], [JStr ''b1'', JStr ''b2'']]"
  have 1: "py_getitem sample_ingredients ''recipes'' = Inr (JList ?recipes)"
    by (simp add: sample_ingredients_def)
  have 2: "list_all2 (\<lambda>recipe gs. py_getitem recipe ''recipeIngredientGroups'' = Inr (JList gs))
           ?recipes ?groups" by simp
  have 3: "\<forall>gs\<in>set ?groups. \<forall>x\<in>set gs. Inr x = (Inr (id x) :: exn + json)" by simp
  have 4: "\<forall>gs\<in>set ?groups. length gs = 2" by simp
  have 0: "200 \<le> status (respond 200 ''{...}'' sample_ingredients)"
    "status (respond 200 ''{...}'' sample_ingredients) < 300"
    "body_json (respond 200 ''{...}'' sample_ingredients) = Inr sample_ingredients"
    by (simp_all add: respond_def)
  from ingredient_items_flattened[OF 0 1 2 3, of logged_in_client 2] 4
  have "fst (get_ingredient_items Inr logged_in_client (Inr (respond 200 ''{...}'' sample_ingredients)))
     = Inr (JList (map id (concat ?groups)))" by blast
  then show ?thesis by simp
qed


section \<open>Projection on the declared fields\<close>

lemma map_of_project:
  "map_of (project declared kvs) k = (if k \<in> set declared then map_of kvs k else None)"
  by (induction kvs) (auto simp: project_def)

lemma request_access_token_undecodable:
  assumes "status r < 400" "status r \<noteq> 401" "status r \<noteq> 400" "body_json r = Inl JSONDecodeError"
  shows "fst (request_access_token fd now s (Inr r)) = Inl (CookidooParseException JSONDecodeError)"
  using assms
  by (simp add: request_access_token_def Let_def token_response_def raise_for_status_def
      and_then_Inl except_request_def)

text \<open>A token body that has what the setter reads is returned as projected.\<close>

lemma request_access_token_returns:
  assumes "status r < 400" "status r \<noteq> 401" "status r \<noteq> 400" "body_json r = Inr (JObj kvs)"
    and "map_of kvs ''token_type'' = Some (JStr tt)" "map_of kvs ''access_token'' = Some tok"
    and "map_of kvs ''expires_in'' = Some ev" "py_int ev = Inr n"
  shows "fst (request_access_token fd now s (Inr r))
           = Inr (JObj (project CookidooAuthResponse_annotations kvs))"
proof -
  let ?data = "project CookidooAuthResponse_annotations kvs"
  let ?s1 = "session_request \<lparr>req_method = POST, req_url = TOKEN_ENDPOINT,
                req_headers = token_headers s, req_payload = FormData fd\<rparr> s"
  let ?s2 = "debug (LogResponse TOKEN_ENDPOINT (status r)
                      (if status r \<noteq> 200 then body_text r else [])) ?s1"
  from assms(1-4) have tr: "token_response TOKEN_ENDPOINT r ?s1 = (Inr ?data, ?s2)"
    by (simp add: token_response_def Let_def raise_for_status_def and_then_Inr)
  from assms(5-8) have "\<exists>s'. auth_data_setter ?data now ?s2 = (Inr (), s')"
    by (simp add: auth_data_setter_def Let_def dict_getitem_def map_of_project
        CookidooAuthResponse_annotations_def expires_in_setter_def)
  then obtain s' where "auth_data_setter ?data now ?s2 = (Inr (), s')" by blast
  with tr show ?thesis
    by (simp add: request_access_token_def Let_def except_request_def)
qed

text \<open>The search passes over inactive elements and stops at the first one that is not.\<close>

lemma first_active_append:
  "\<forall>s\<in>set pre. inactive s \<Longrightarrow> first_active (pre @ rest) = first_active rest"
  by (induction pre) (auto simp: inactive_def split: sum.splits)

lemma read_active_subscription_found:
  assumes "\<forall>s\<in>set pre. inactive s" "map_of kvs ''active'' = Some a" "py_bool a"
  shows "read_active_subscription declared (JList (pre @ JObj kvs # post))
           = Inr (JObj (project declared kvs))"
proof -
  from assms(2) have "kvs \<noteq> []" by auto
  with assms show ?thesis
    by (simp add: read_active_subscription_def and_then_Inr first_active_append)
qed

lemma read_active_subscription_no_flag:
  assumes "\<forall>s\<in>set pre. inactive s" "map_of kvs ''active'' = None"
  shows "read_active_subscription declared (JList (pre @ JObj kvs # post))
           = Inl (KeyError ''active'')"
  using assms
  by (simp add: read_active_subscription_def and_then_Inr and_then_Inl first_active_append)

text \<open>
  Claim C5, as the code has it. The projection keeps exactly the entries whose key is a
  declared field: a key that is not declared is absent from the result and a declared key
  keeps the value the object gave it. On a 2xx response this is what \<^verbatim>\<open>get_user_info\<close>
  returns for the dict under \<^verbatim>\<open>userInfo\<close>, what \<^verbatim>\<open>get_active_subscription\<close> returns for the
  first element whose \<^verbatim>\<open>active\<close> is true after elements whose \<^verbatim>\<open>active\<close> is false, whatever
  follows it, and what a token request returns and stores: it returns whenever the body has a
  string \<^verbatim>\<open>token_type\<close>, an \<^verbatim>\<open>access_token\<close> and an \<^verbatim>\<open>expires_in\<close> that converts to an int.
  \<^verbatim>\<open>CookidooParseException\<close> is raised when decoding the body raises \<^verbatim>\<open>JSONDecodeError\<close>, when
  the user-info body has no \<^verbatim>\<open>userInfo\<close>, and when the subscription reached after the inactive
  ones has no \<^verbatim>\<open>active\<close>. The projection itself asks for no field.
\<close>

theorem allowlist_projection:
  assumes "200 \<le> status r" "status r < 300"
    and "g = login now \<or>
         g = refresh_token client_id now \<and> auth_data_field self = Some d \<and>
           map_of d ''refresh_token'' = Some held"
  shows "map_of (project declared kvs) k = (if k \<in> set declared then map_of kvs k else None)
    \<and> (body_json r = Inr body \<and> py_getitem body ''userInfo'' = Inr (JObj kvs) \<longrightarrow>
         fst (get_user_info declared self (Inr r)) = Inr (JObj (project declared kvs)))
    \<and> (body_json r = Inr (JObj kvs) \<and> map_of kvs ''userInfo'' = None \<longrightarrow>
         fst (get_user_info declared self (Inr r))
           = Inl (CookidooParseException (KeyError ''userInfo'')))
    \<and> (body_json r = Inr (JList (pre @ JObj kvs # post)) \<and> (\<forall>s\<in>set pre. inactive s) \<and>
         map_of kvs ''active'' = Some a \<and> py_bool a \<longrightarrow>
         fst (get_active_subscription declared self (Inr r)) = Inr (JObj (project declared kvs)))
    \<and> (body_json r = Inr (JList (pre @ JObj kvs # post)) \<and> (\<forall>s\<in>set pre. inactive s) \<and>
         map_of kvs ''active'' = None \<longrightarrow>
         fst (get_active_subscription declared self (Inr r))
           = Inl (CookidooParseException (KeyError ''active'')))
    \<and> (body_json r = Inr (JObj kvs) \<and> fst (g self (Inr r)) = Inr v \<longrightarrow>
         v = JObj (project CookidooAuthResponse_annotations kvs) \<and>
         auth_data_field (snd (g self (Inr r))) = Some (project CookidooAuthResponse_annotations kvs))
    \<and> (body_json r = Inr (JObj kvs) \<and> map_of kvs ''token_type'' = Some (JStr tt) \<and>
         map_of kvs ''access_token'' = Some tok \<and> map_of kvs ''expires_in'' = Some ev \<and>
         py_int ev = Inr n \<longrightarrow>
         fst (g self (Inr r)) = Inr (JObj (project CookidooAuthResponse_annotations kvs)))
    \<and> (body_json r = Inl JSONDecodeError \<longrightarrow>
         fst (get_user_info declared self (Inr r)) = Inl (CookidooParseException JSONDecodeError) \<and>
         fst (get_active_subscription declared self (Inr r))
           = Inl (CookidooParseException JSONDecodeError) \<and>
         fst (g self (Inr r)) = Inl (CookidooParseException JSONDecodeError))"
proof -
  from assms(1,2) have st: "status r < 400" "status r \<noteq> 401" "status r \<noteq> 400" by auto
  have "\<exists>fd. g self (Inr r) = request_access_token fd now self (Inr r)"
    using assms(3)
  proof
    assume "g = login now"
    then show ?thesis by (auto simp: login_def)
  next
    assume h: "g = refresh_token client_id now \<and> auth_data_field self = Some d \<and>
           map_of d ''refresh_token'' = Some held"
    then have "d \<noteq> []" by auto
    with h show ?thesis by (auto simp: refresh_token_def dict_getitem_def)
  qed
  then obtain fd where fd: "g self (Inr r) = request_access_token fd now self (Inr r)"
    by blast
  have user: "fst (get_user_info declared self (Inr r)) = Inr (JObj (project declared kvs))"
    if "body_json r = Inr body" "py_getitem body ''userInfo'' = Inr (JObj kvs)"
    using that
    by (simp add: get_user_info_def api_request_parse[OF st(1,2)] read_user_info_def and_then_Inr)
  have nokey: "fst (get_user_info declared self (Inr r))
           = Inl (CookidooParseException (KeyError ''userInfo''))"
    if "body_json r = Inr (JObj kvs)" "map_of kvs ''userInfo'' = None"
    using that
    by (simp add: get_user_info_def api_request_parse[OF st(1,2)] read_user_info_def
        and_then_Inr and_then_Inl)
  have sub: "fst (get_active_subscription declared self (Inr r)) = Inr (JObj (project declared kvs))"
    if "body_json r = Inr (JList (pre @ JObj kvs # post))" "\<forall>s\<in>set pre. inactive s"
       "map_of kvs ''active'' = Some a" "py_bool a"
    using that
    by (simp add: get_active_subscription_def api_request_parse[OF st(1,2)] and_then_Inr
        read_active_subscription_found)
  have noflag: "fst (get_active_subscription declared self (Inr r))
           = Inl (CookidooParseException (KeyError ''active''))"
    if "body_json r = Inr (JList (pre @ JObj kvs # post))" "\<forall>s\<in>set pre. inactive s"
       "map_of kvs ''active'' = None"
    using that
    by (simp add: get_active_subscription_def api_request_parse[OF st(1,2)] and_then_Inr
        read_active_subscription_no_flag)
  have tok: "v = JObj (project CookidooAuthResponse_annotations kvs) \<and>
         auth_data_field (snd (g self (Inr r))) = Some (project CookidooAuthResponse_annotations kvs)"
    if b: "body_json r = Inr (JObj kvs)" and ok: "fst (g self (Inr r)) = Inr v"
  proof -
    from fd ok have "request_access_token fd now self (Inr r) = (Inr v, snd (g self (Inr r)))"
      by (metis prod.collapse)
    from request_access_token_Inr[OF this] b show ?thesis by auto
  qed
  have ret: "fst (g self (Inr r)) = Inr (JObj (project CookidooAuthResponse_annotations kvs))"
    if "body_json r = Inr (JObj kvs)" "map_of kvs ''token_type'' = Some (JStr tt)"
       "map_of kvs ''access_token'' = Some tok" "map_of kvs ''expires_in'' = Some ev"
       "py_int ev = Inr n"
    using request_access_token_returns[OF st that] fd by simp
  have dec: "fst (get_user_info declared self (Inr r)) = Inl (CookidooParseException JSONDecodeError) \<and>
         fst (get_active_subscription declared self (Inr r))
           = Inl (CookidooParseException JSONDecodeError) \<and>
         fst (g self (Inr r)) = Inl (CookidooParseException JSONDecodeError)"
    if "body_json r = Inl JSONDecodeError"
    using that fd
    by (simp add: get_user_info_def get_active_subscription_def api_request_parse[OF st(1,2)]
        and_then_Inl request_access_token_undecodable[OF st])
  from user nokey sub noflag tok ret dec show ?thesis
    by (simp add: map_of_project)
qed

theorem allowlist_projection_witness:
  "fst (get_user_info [''username''] logged_in_client
          (Inr (respond 200 ''{...}''
             (JObj [(''userInfo'', JObj [(''username'', JStr ''cook''), (''internal'', JInt 7)])]))))
     = Inr (JObj [(''username'', JStr ''cook'')])
   \<and> map_of (project [''username''] [(''username'', JStr ''cook''), (''internal'', JInt 7)]) ''internal''
       = None
   \<and> fst (get_user_info [''username''] logged_in_client (Inr (respond 200 ''{}'' (JObj []))))
     = Inl (CookidooParseException (KeyError ''userInfo''))
   \<and> fst (get_active_subscription [''active'', ''type''] logged_in_client
          (Inr (respond 200 ''[...]''
             (JList [JObj [(''active'', JBool False), (''type'', JStr ''REGULAR'')],
                     JObj [(''active'', JBool True), (''internal'', JInt 7)],
                     JStr ''junk'']))))
     = Inr (JObj [(''active'', JBool True)])
   \<and> fst (get_active_subscription [''active'', ''type''] logged_in_client
          (Inr (respond 200 ''[...]'' (JList [JObj [(''type'', JStr ''REGULAR'')]]))))
     = Inl (CookidooParseException (KeyError ''active''))
   \<and> fst (login 1000 sample_client
          (Inr (respond 200 ''{...}''
             (JObj [(''scope'', JStr ''all''), (''access_token'', JStr ''AT''),
                    (''token_type'', JStr ''bearer''), (''expires_in'', JInt 3600)]))))
     = Inr (JObj [(''access_token'', JStr ''AT''), (''token_type'', JStr ''bearer''),
                  (''expires_in'', JInt 3600)])
   \<and> auth_data_field (snd (login 1000 sample_client
          (Inr (respond 200 ''{...}''
             (JObj [(''scope'', JStr ''all''), (''access_token'', JStr ''AT''),
                    (''token_type'', JStr ''bearer''), (''expires_in'', JInt 3600)])))))
     = Some [(''access_token'', JStr ''AT''), (''token_type'', JStr ''bearer''),
             (''expires_in'', JInt 3600)]
   \<and> fst (refresh_token ''client'' 2000 logged_in_client
          (Inr \<lparr>status = 200, body_text = ''<html>'', body_json = Inl JSONDecodeError\<rparr>))
     = Inl (CookidooParseException JSONDecodeError)
   \<and> fst (get_user_info [''username''] logged_in_client
          (Inr \<lparr>status = 200, body_text = ''<html>'', body_json = Inl JSONDecodeError\<rparr>))
     = Inl (CookidooParseException JSONDecodeError)"
proof -
  let ?u = "[(''username'', JStr ''cook''), (''internal'', JInt 7)]"
  let ?ru = "respond 200 ''{...}'' (JObj [(''userInfo'', JObj ?u)])"
  let ?re = "respond 200 ''{}'' (JObj [])"
  let ?pre = "[JObj [(''active'', JBool False), (''type'', JStr ''REGULAR'')]]"
  let ?act = "[(''active'', JBool True), (''internal'', JInt 7)]"
  let ?subs = "[JObj [(''active'', JBool False), (''type'', JStr ''REGULAR'')],
                JObj [(''active'', JBool True), (''internal'', JInt 7)], JStr ''junk'']"
  let ?rs = "respond 200 ''[...]'' (JList ?subs)"
  let ?rn = "respond 200 ''[...]'' (JList [JObj [(''type'', JStr ''REGULAR'')]])"
  let ?t = "[(''scope'', JStr ''all''), (''access_token'', JStr ''AT''),
             (''token_type'', JStr ''bearer''), (''expires_in'', JInt 3600)]"
  let ?rt = "respond 200 ''{...}'' (JObj ?t)"
  let ?rd = "\<lparr>status = 200, body_text = ''<html>'', body_json = Inl JSONDecodeError\<rparr>"
  let ?d = "[(''access_token'', JStr ''AT''), (''refresh_token'', JStr ''RT''),
             (''token_type'', JStr ''bearer''), (''expires_in'', JInt 3600)]"
  have lo: "\<And>t j. 200 \<le> status (respond 200 t j)" and hi: "\<And>t j. status (respond 200 t j) < 300"
    and bj: "\<And>t j. body_json (respond 200 t j) = Inr j"
    by (simp_all add: respond_def)
  have lod: "200 \<le> status ?rd" and hid: "status ?rd < 300" by simp_all
  have a: "auth_data_field logged_in_client = Some ?d" by code_simp
  have gl: "login 1000 = login 1000 \<or>
      login 1000 = refresh_token ''client'' 1000 \<and> auth_data_field s = Some ?d \<and>
        map_of ?d ''refresh_token'' = Some (JStr ''RT'')" for s
    by simp
  have gr: "refresh_token ''client'' 2000 = login 2000 \<or>
      refresh_token ''client'' 2000 = refresh_token ''client'' 2000 \<and>
        auth_data_field logged_in_client = Some ?d \<and>
        map_of ?d ''refresh_token'' = Some (JStr ''RT'')"
    using a by simp
  have pi: "\<forall>s\<in>set ?pre. inactive s" by (simp add: inactive_def)
  have 0: "map_of (project [''username''] ?u) ''internal'' = None"
    using allowlist_projection[where r="?ru" and g="login 1000" and now=1000
        and client_id="''client''" and self=logged_in_client and d="?d" and held="JStr ''RT''"
        and declared="[''username'']"
        and kvs="?u"
        and k="''internal''",
        OF lo hi gl, THEN conjunct1]
    by simp
  have "fst (get_user_info [''username''] logged_in_client (Inr ?ru))
             = Inr (JObj (project [''username''] ?u))"
    using allowlist_projection[where r="?ru" and g="login 1000" and now=1000
        and client_id="''client''" and self=logged_in_client and d="?d" and held="JStr ''RT''"
        and declared="[''username'']"
        and kvs="?u"
        and body="JObj [(''userInfo'', JObj ?u)]",
        OF lo hi gl, THEN conjunct2, THEN conjunct1]
    by (simp add: bj)
  then have 1: "fst (get_user_info [''username''] logged_in_client (Inr ?ru))
             = Inr (JObj [(''username'', JStr ''cook'')])"
    by (simp add: project_def)
  have 2: "fst (get_user_info [''username''] logged_in_client (Inr ?re))
     = Inl (CookidooParseException (KeyError ''userInfo''))"
    using allowlist_projection[where r="?re" and g="login 1000" and now=1000
        and client_id="''client''" and self=logged_in_client and d="?d" and held="JStr ''RT''"
        and declared="[''username'']"
        and kvs="[]",
        OF lo hi gl, THEN conjunct2, THEN conjunct2, THEN conjunct1]
    by (simp add: bj)
  have "fst (get_active_subscription [''active'', ''type''] logged_in_client (Inr ?rs))
     = Inr (JObj (project [''active'', ''type''] ?act))"
    using allowlist_projection[where r="?rs" and g="login 1000" and now=1000
        and client_id="''client''" and self=logged_in_client and d="?d" and held="JStr ''RT''"
        and declared="[''active'', ''type'']"
        and kvs="?act"
        and pre="?pre"
        and post="[JStr ''junk'']"
        and a="JBool True",
        OF lo hi gl, THEN conjunct2, THEN conjunct2, THEN conjunct2, THEN conjunct1] pi
    by (simp add: bj)
  then have 3: "fst (get_active_subscription [''active'', ''type''] logged_in_client (Inr ?rs))
     = Inr (JObj [(''active'', JBool True)])"
    by (simp add: project_def)
  have 4: "fst (get_active_subscription [''active'', ''type''] logged_in_client (Inr ?rn))
     = Inl (CookidooParseException (KeyError ''active''))"
    using allowlist_projection[where r="?rn" and g="login 1000" and now=1000
        and client_id="''client''" and self=logged_in_client and d="?d" and held="JStr ''RT''"
        and declared="[''active'', ''type'']"
        and kvs="[(''type'', JStr ''REGULAR'')]"
        and pre="[]"
        and post="[]",
        OF lo hi gl, THEN conjunct2, THEN conjunct2, THEN conjunct2, THEN conjunct2, THEN conjunct1]
    by (simp add: bj)
  have 5: "fst (login 1000 sample_client (Inr ?rt))
             = Inr (JObj (project CookidooAuthResponse_annotations ?t))"
    using allowlist_projection[where r="?rt" and g="login 1000" and now=1000
        and client_id="''client''" and self=sample_client and d="?d" and held="JStr ''RT''"
        and kvs="?t"
        and tt="''bearer''"
        and tok="JStr ''AT''"
        and ev="JInt 3600"
        and n="3600",
        OF lo hi gl, THEN conjunct2, THEN conjunct2, THEN conjunct2, THEN conjunct2, THEN conjunct2, THEN conjunct2, THEN conjunct1]
    by (simp add: bj)
  have 6: "auth_data_field (snd (login 1000 sample_client (Inr ?rt)))
             = Some (project CookidooAuthResponse_annotations ?t)"
    using allowlist_projection[where r="?rt" and g="login 1000" and now=1000
        and client_id="''client''" and self=sample_client and d="?d" and held="JStr ''RT''"
        and kvs="?t"
        and v="JObj (project CookidooAuthResponse_annotations ?t)",
        OF lo hi gl, THEN conjunct2, THEN conjunct2, THEN conjunct2, THEN conjunct2, THEN conjunct2, THEN conjunct1] 5
    by (simp add: bj)
  have p: "project CookidooAuthResponse_annotations ?t
             = [(''access_token'', JStr ''AT''), (''token_type'', JStr ''bearer''),
                (''expires_in'', JInt 3600)]"
    by (simp add: project_def CookidooAuthResponse_annotations_def)
  have 7: "fst (get_user_info [''username''] logged_in_client (Inr ?rd))
             = Inl (CookidooParseException JSONDecodeError)
     \<and> fst (refresh_token ''client'' 2000 logged_in_client (Inr ?rd))
             = Inl (CookidooParseException JSONDecodeError)"
    using allowlist_projection[where r="?rd" and g="refresh_token ''client'' 2000" and now=2000
        and client_id="''client''" and self=logged_in_client and d="?d" and held="JStr ''RT''"
        and declared="[''username'']",
        OF lod hid gr, THEN conjunct2, THEN conjunct2, THEN conjunct2, THEN conjunct2, THEN conjunct2, THEN conjunct2, THEN conjunct2]
    by simp
  from 0 1 2 3 4 5 6 7 p show ?thesis by simp
qed

text \<open>
  A user-info dict that lacks two of three declared fields is returned with the one it has.
\<close>

theorem missing_field_counterexample:
  "fst (get_user_info [''username'', ''description'', ''picture''] logged_in_client
          (Inr (respond 200 ''{...}'' (JObj [(''userInfo'', JObj [(''username'', JStr ''cook'')])]))))
     = Inr (JObj [(''username'', JStr ''cook'')])"
  by code_simp

end
